theory Spec2Isabelle
  imports Complex_Main "HOL-Library.AList" "HOL-Library.Char_ord" "HOL-Library.List_Lexorder"
    "HOL-Library.Log_Nat"
begin

section \<open>Python values\<close>

text \<open>
  The exceptions the aggregation code can meet, the floats and the values an amount field
  can hold. A float is a binary64 number: \<open>Fin q\<close> carries the exact rational value of
  a finite one. The two zeros are identified (\<open>-0.0 == 0.0\<close> in Python, and the code
  only compares with 0, divides by a positive number, multiplies by 100 and truncates,
  none of which tells them apart). \<open>VInt\<close> also stands for a bool, which is an int.
\<close>

datatype py_error = ValueError | TypeError | OverflowError | ZeroDivisionError

datatype pyfloat = Fin rat | PInf | NInf | NaN

datatype pyval = VStr string | VInt int | VFloat pyfloat | VNone | VOther

definition err_bind :: "py_error + 'a \<Rightarrow> ('a \<Rightarrow> py_error + 'b) \<Rightarrow> py_error + 'b" where
  "err_bind m f = (case m of Inl e \<Rightarrow> Inl e | Inr x \<Rightarrow> f x)"

subsection \<open>Rounding to binary64\<close>

definition pow2 :: "int \<Rightarrow> rat" where
  "pow2 k = (if 0 \<le> k then of_int (2 ^ nat k) else 1 / of_int (2 ^ nat (- k)))"

definition pow10 :: "int \<Rightarrow> rat" where
  "pow10 k = (if 0 \<le> k then of_int (10 ^ nat k) else 1 / of_int (10 ^ nat (- k)))"

definition round_half_even :: "rat \<Rightarrow> int" where
  "round_half_even q =
     (let f = \<lfloor>q\<rfloor>; r = q - of_int f
      in if r < 1 / 2 then f else if 1 / 2 < r then f + 1 else if even f then f else f + 1)"

text \<open>The binary exponent of a positive rational: \<open>2 ^ e \<le> q < 2 ^ (e + 1)\<close>.\<close>

definition floor_log2 :: "rat \<Rightarrow> int" where
  "floor_log2 q =
     (let (a, b) = quotient_of q; e0 = bitlen a - bitlen b
      in if pow2 e0 \<le> q then e0 else e0 - 1)"

text \<open>
  Round to nearest, ties to even, with 53 bits of precision, gradual underflow below
  \<open>2 ^ -1022\<close> and overflow to an infinity from \<open>2 ^ 1024\<close> on.
\<close>

definition fl_round :: "rat \<Rightarrow> pyfloat" where
  "fl_round q =
     (if q = 0 then Fin 0
      else
        (let a = \<bar>q\<bar>;
             ex = max (floor_log2 a) (- 1022);
             u = pow2 (ex - 52);
             v = of_int (round_half_even (a / u)) * u
         in if 1024 \<le> floor_log2 v then (if 0 < q then PInf else NInf)
            else Fin (if 0 < q then v else - v)))"

subsection \<open>Float operations the code uses\<close>

text \<open>\<open>x > 0\<close>\<close>

fun py_gt0 :: "pyfloat \<Rightarrow> bool" where
  "py_gt0 (Fin q) = (0 < q)"
| "py_gt0 PInf = True"
| "py_gt0 NInf = False"
| "py_gt0 NaN = False"

text \<open>\<open>x < 0\<close>\<close>

fun py_lt0 :: "pyfloat \<Rightarrow> bool" where
  "py_lt0 (Fin q) = (q < 0)"
| "py_lt0 PInf = False"
| "py_lt0 NInf = True"
| "py_lt0 NaN = False"

text \<open>\<open>x / y\<close> on floats: a zero divisor raises, everything else follows IEEE 754.\<close>

fun py_truediv :: "pyfloat \<Rightarrow> pyfloat \<Rightarrow> py_error + pyfloat" where
  "py_truediv x (Fin b) =
     (if b = 0 then Inl ZeroDivisionError
      else (case x of
              Fin a \<Rightarrow> Inr (fl_round (a / b))
            | PInf \<Rightarrow> Inr (if 0 < b then PInf else NInf)
            | NInf \<Rightarrow> Inr (if 0 < b then NInf else PInf)
            | NaN \<Rightarrow> Inr NaN))"
| "py_truediv x NaN = Inr NaN"
| "py_truediv x y = (case x of Fin a \<Rightarrow> Inr (Fin 0) | _ \<Rightarrow> Inr NaN)"

text \<open>\<open>x * y\<close> on floats.\<close>

fun py_mul :: "pyfloat \<Rightarrow> pyfloat \<Rightarrow> pyfloat" where
  "py_mul (Fin a) (Fin b) = fl_round (a * b)"
| "py_mul NaN y = NaN"
| "py_mul x NaN = NaN"
| "py_mul x y =
     (if x = Fin 0 \<or> y = Fin 0 then NaN
      else if py_gt0 x = py_gt0 y then PInf else NInf)"

text \<open>\<open>int(x)\<close> on a float: truncation towards zero.\<close>

fun py_int :: "pyfloat \<Rightarrow> py_error + int" where
  "py_int (Fin q) = Inr (if 0 \<le> q then \<lfloor>q\<rfloor> else \<lceil>q\<rceil>)"
| "py_int NaN = Inl ValueError"
| "py_int x = Inl OverflowError"

text \<open>\<open>float(n)\<close> on an int: correctly rounded, \<open>OverflowError\<close> beyond the range.\<close>

definition float_of_int :: "int \<Rightarrow> py_error + pyfloat" where
  "float_of_int n =
     (case fl_round (of_int n) of Fin q \<Rightarrow> Inr (Fin q) | _ \<Rightarrow> Inl OverflowError)"

subsection \<open>\<open>float(s)\<close> on a string\<close>

text \<open>
  The grammar of CPython's \<open>float\<close>: underscores between digits are dropped, blanks
  around the number are stripped, then comes a decimal number with an optional fraction and
  exponent, or \<open>inf\<close>, \<open>infinity\<close>, \<open>nan\<close> in any case, each after an optional sign.
  Anything else is a \<open>ValueError\<close>. A byte outside ASCII is a character that
  \<open>float\<close> rejects; the digits and blanks of other scripts, which Python also accepts,
  are outside the model.
\<close>

definition is_space :: "char \<Rightarrow> bool" where
  "is_space c \<longleftrightarrow> c \<in> set [CHR '' '', CHR 0x09, CHR 0x0A, CHR 0x0B, CHR 0x0C, CHR 0x0D]"

definition is_digit :: "char \<Rightarrow> bool" where
  "is_digit c \<longleftrightarrow> c \<in> set ''0123456789''"

definition digit_val :: "char \<Rightarrow> nat" where
  "digit_val c = of_char c - 48"

definition nat_of_digits :: "string \<Rightarrow> nat" where
  "nat_of_digits ds = foldl (\<lambda>n c. 10 * n + digit_val c) 0 ds"

definition to_lower :: "char \<Rightarrow> char" where
  "to_lower c =
     (if CHR ''A'' \<le> c \<and> c \<le> CHR ''Z'' then char_of (of_char c + (32::nat)) else c)"

definition strip :: "string \<Rightarrow> string" where
  "strip s = rev (dropWhile is_space (rev (dropWhile is_space s)))"

fun underscores :: "char \<Rightarrow> string \<Rightarrow> string option" where
  "underscores prev [] = (if prev = CHR ''_'' then None else Some [])"
| "underscores prev (c # cs) =
     (if c = CHR ''_'' then (if is_digit prev then underscores c cs else None)
      else if prev = CHR ''_'' \<and> \<not> is_digit c then None
      else map_option (Cons c) (underscores c cs))"

definition split_sign :: "string \<Rightarrow> bool \<times> string" where
  "split_sign s =
     (case s of
        [] \<Rightarrow> (False, [])
      | c # cs \<Rightarrow>
          if c = CHR ''-'' then (True, cs) else if c = CHR ''+'' then (False, cs)
          else (False, s))"

definition parse_exponent :: "string \<Rightarrow> int option" where
  "parse_exponent s =
     (case s of
        [] \<Rightarrow> Some 0
      | c # cs \<Rightarrow>
          if c = CHR ''e'' \<or> c = CHR ''E'' then
            (let (neg, ds) = split_sign cs
             in if ds \<noteq> [] \<and> list_all is_digit ds
                then Some (if neg then - int (nat_of_digits ds) else int (nat_of_digits ds))
                else None)
          else None)"

definition parse_decimal :: "string \<Rightarrow> rat option" where
  "parse_decimal s =
     (let (neg, r0) = split_sign s;
          ip = takeWhile is_digit r0;
          r1 = dropWhile is_digit r0;
          (fp, r2) = (case r1 of
                        [] \<Rightarrow> ([], [])
                      | c # cs \<Rightarrow>
                          if c = CHR ''.'' then (takeWhile is_digit cs, dropWhile is_digit cs)
                          else ([], r1))
      in if ip = [] \<and> fp = [] then None
         else (case parse_exponent r2 of
                 None \<Rightarrow> None
               | Some e \<Rightarrow>
                   (let m = of_nat (nat_of_digits (ip @ fp)) * pow10 (e - int (length fp))
                    in Some (if neg then - m else m))))"

definition parse_inf_or_nan :: "string \<Rightarrow> pyfloat option" where
  "parse_inf_or_nan s =
     (let (neg, r) = split_sign s; l = map to_lower r
      in if l = ''inf'' \<or> l = ''infinity'' then Some (if neg then NInf else PInf)
         else if l = ''nan'' then Some NaN
         else None)"

definition float_of_string :: "string \<Rightarrow> py_error + pyfloat" where
  "float_of_string s =
     (case (if CHR ''_'' \<in> set s then underscores (CHR 0x00) s else Some s) of
        None \<Rightarrow> Inl ValueError
      | Some t \<Rightarrow>
          (let u = strip t
           in case parse_decimal u of
                Some q \<Rightarrow> Inr (fl_round q)
              | None \<Rightarrow> (case parse_inf_or_nan u of
                           Some f \<Rightarrow> Inr f
                         | None \<Rightarrow> Inl ValueError)))"

text \<open>The builtin \<open>float(value)\<close>.\<close>

fun py_float :: "pyval \<Rightarrow> py_error + pyfloat" where
  "py_float (VStr s) = float_of_string s"
| "py_float (VInt n) = float_of_int n"
| "py_float (VFloat f) = Inr f"
| "py_float VNone = Inl TypeError"
| "py_float VOther = Inl TypeError"

section \<open>Line-item normalizer\<close>

text \<open>\<open>value.replace(',', '')\<close>\<close>

definition remove_commas :: "string \<Rightarrow> string" where
  "remove_commas s = filter (\<lambda>c. c \<noteq> CHR '','') s"

text \<open>
  \<open>safe_convert\<close> (utils.py). The \<open>try\<close> catches \<open>ValueError\<close> and
  \<open>TypeError\<close> only; any other exception leaves the function, which is the
  \<open>Inl\<close> result.
\<close>

definition safe_convert :: "pyval \<Rightarrow> py_error + pyfloat" where
  "safe_convert v =
     (case (case v of
              VStr s \<Rightarrow> float_of_string (remove_commas s)
            | VInt n \<Rightarrow> float_of_int n
            | VFloat f \<Rightarrow> Inr f
            | _ \<Rightarrow> Inr (Fin 0)) of
        Inl e \<Rightarrow> if e = ValueError \<or> e = TypeError then Inr (Fin 0) else Inl e
      | Inr f \<Rightarrow> Inr f)"

section \<open>Line items\<close>

text \<open>
  A line item is one row of the disclosure API's answer: a JSON object whose fields are
  strings. Only the fields the aggregation code reads are kept. Strings are byte strings
  (UTF-8), so the Korean account names are written out as their bytes; equality and the
  lexicographic order of the bytes agree with Python's on the code points.
\<close>

record line_item =
  bsns_year :: string
  fs_div :: string
  sj_div :: string
  account_nm :: string
  thstrm_amount :: string

definition acct_revenue :: string where
  "acct_revenue =
     [CHR 0xEB, CHR 0xA7, CHR 0xA4, CHR 0xEC, CHR 0xB6, CHR 0x9C, CHR 0xEC,
     CHR 0x95, CHR 0xA1]"

definition acct_operating_income :: string where
  "acct_operating_income =
     [CHR 0xEC, CHR 0x98, CHR 0x81, CHR 0xEC, CHR 0x97, CHR 0x85, CHR 0xEC,
     CHR 0x9D, CHR 0xB4, CHR 0xEC, CHR 0x9D, CHR 0xB5]"

definition acct_net_income :: string where
  "acct_net_income =
     [CHR 0xEB, CHR 0x8B, CHR 0xB9, CHR 0xEA, CHR 0xB8, CHR 0xB0, CHR 0xEC,
     CHR 0x88, CHR 0x9C, CHR 0xEC, CHR 0x9D, CHR 0xB4, CHR 0xEC, CHR 0x9D,
     CHR 0xB5]"

definition acct_total_assets :: string where
  "acct_total_assets =
     [CHR 0xEC, CHR 0x9E, CHR 0x90, CHR 0xEC, CHR 0x82, CHR 0xB0, CHR 0xEC,
     CHR 0xB4, CHR 0x9D, CHR 0xEA, CHR 0xB3, CHR 0x84]"

definition acct_total_equity :: string where
  "acct_total_equity =
     [CHR 0xEC, CHR 0x9E, CHR 0x90, CHR 0xEB, CHR 0xB3, CHR 0xB8, CHR 0xEC,
     CHR 0xB4, CHR 0x9D, CHR 0xEA, CHR 0xB3, CHR 0x84]"

text \<open>
  \<open>{item['account_nm']: item for item in data}\<close>: a later item with the same name
  overwrites the earlier one.
\<close>

definition account_dict :: "line_item list \<Rightarrow> (string \<rightharpoonup> line_item)" where
  "account_dict data = foldl (\<lambda>d item. d(account_nm item \<mapsto> item)) Map.empty data"

text \<open>\<open>d.get(name, {}).get('thstrm_amount', 0)\<close>\<close>

definition amount_of :: "(string \<rightharpoonup> line_item) \<Rightarrow> string \<Rightarrow> pyval" where
  "amount_of d name = (case d name of None \<Rightarrow> VInt 0 | Some item \<Rightarrow> VStr (thstrm_amount item))"

section \<open>Ratio deriver\<close>

text \<open>
  \<open>create_profitability_radar_chart\<close> (chart_service.py) up to the point where the
  figure is drawn. The five parallel lists of the source are one list of records here;
  \<open>numerator_amount\<close> and \<open>base_amount\<close> hold \<open>int(x)\<close>, which the source then
  formats for display.
\<close>

datatype ratio_kind = ROE | ROA | OperatingMargin | NetMargin

fun ratio_name :: "ratio_kind \<Rightarrow> string" where
  "ratio_name ROE =
     [CHR 0x52, CHR 0x4F, CHR 0x45, CHR 0x3C, CHR 0x62, CHR 0x72, CHR 0x3E,
     CHR 0x28, CHR 0xEC, CHR 0x9E, CHR 0x90, CHR 0xEA, CHR 0xB8, CHR 0xB0,
     CHR 0xEC, CHR 0x9E, CHR 0x90, CHR 0xEB, CHR 0xB3, CHR 0xB8, CHR 0xEC,
     CHR 0x9D, CHR 0xB4, CHR 0xEC, CHR 0x9D, CHR 0xB5, CHR 0xEB, CHR 0xA5,
     CHR 0xA0, CHR 0x29]"
| "ratio_name ROA =
     [CHR 0x52, CHR 0x4F, CHR 0x41, CHR 0x3C, CHR 0x62, CHR 0x72, CHR 0x3E,
     CHR 0x28, CHR 0xEC, CHR 0xB4, CHR 0x9D, CHR 0xEC, CHR 0x9E, CHR 0x90,
     CHR 0xEC, CHR 0x82, CHR 0xB0, CHR 0xEC, CHR 0x9D, CHR 0xB4, CHR 0xEC,
     CHR 0x9D, CHR 0xB5, CHR 0xEB, CHR 0xA5, CHR 0xA0, CHR 0x29]"
| "ratio_name OperatingMargin =
     [CHR 0xEC, CHR 0x98, CHR 0x81, CHR 0xEC, CHR 0x97, CHR 0x85, CHR 0xEC,
     CHR 0x9D, CHR 0xB4, CHR 0xEC, CHR 0x9D, CHR 0xB5, CHR 0xEB, CHR 0xA5,
     CHR 0xA0]"
| "ratio_name NetMargin =
     [CHR 0xEC, CHR 0x88, CHR 0x9C, CHR 0xEC, CHR 0x9D, CHR 0xB4, CHR 0xEC,
     CHR 0x9D, CHR 0xB5, CHR 0xEB, CHR 0xA5, CHR 0xA0]"

fun account_name :: "ratio_kind \<Rightarrow> string" where
  "account_name ROE =
     [CHR 0xEB, CHR 0x8B, CHR 0xB9, CHR 0xEA, CHR 0xB8, CHR 0xB0, CHR 0xEC,
     CHR 0x88, CHR 0x9C, CHR 0xEC, CHR 0x9D, CHR 0xB4, CHR 0xEC, CHR 0x9D,
     CHR 0xB5, CHR 0x20, CHR 0x2F, CHR 0x20, CHR 0xEC, CHR 0x9E, CHR 0x90,
     CHR 0xEB, CHR 0xB3, CHR 0xB8, CHR 0xEC, CHR 0xB4, CHR 0x9D, CHR 0xEA,
     CHR 0xB3, CHR 0x84]"
| "account_name ROA =
     [CHR 0xEB, CHR 0x8B, CHR 0xB9, CHR 0xEA, CHR 0xB8, CHR 0xB0, CHR 0xEC,
     CHR 0x88, CHR 0x9C, CHR 0xEC, CHR 0x9D, CHR 0xB4, CHR 0xEC, CHR 0x9D,
     CHR 0xB5, CHR 0x20, CHR 0x2F, CHR 0x20, CHR 0xEC, CHR 0x9E, CHR 0x90,
     CHR 0xEC, CHR 0x82, CHR 0xB0, CHR 0xEC, CHR 0xB4, CHR 0x9D, CHR 0xEA,
     CHR 0xB3, CHR 0x84]"
| "account_name OperatingMargin =
     [CHR 0xEC, CHR 0x98, CHR 0x81, CHR 0xEC, CHR 0x97, CHR 0x85, CHR 0xEC,
     CHR 0x9D, CHR 0xB4, CHR 0xEC, CHR 0x9D, CHR 0xB5, CHR 0x20, CHR 0x2F,
     CHR 0x20, CHR 0xEB, CHR 0xA7, CHR 0xA4, CHR 0xEC, CHR 0xB6, CHR 0x9C,
     CHR 0xEC, CHR 0x95, CHR 0xA1]"
| "account_name NetMargin =
     [CHR 0xEB, CHR 0x8B, CHR 0xB9, CHR 0xEA, CHR 0xB8, CHR 0xB0, CHR 0xEC,
     CHR 0x88, CHR 0x9C, CHR 0xEC, CHR 0x9D, CHR 0xB4, CHR 0xEC, CHR 0x9D,
     CHR 0xB5, CHR 0x20, CHR 0x2F, CHR 0x20, CHR 0xEB, CHR 0xA7, CHR 0xA4,
     CHR 0xEC, CHR 0xB6, CHR 0x9C, CHR 0xEC, CHR 0x95, CHR 0xA1]"

record ratio_record =
  kind :: ratio_kind
  ratio :: pyfloat
  numerator_amount :: int
  base_amount :: int

text \<open>\<open>(num / den) * 100\<close>\<close>

definition percent :: "pyfloat \<Rightarrow> pyfloat \<Rightarrow> py_error + pyfloat" where
  "percent num den = err_bind (py_truediv num den) (\<lambda>q. Inr (py_mul q (Fin 100)))"

text \<open>The body of one \<open>if den > 0:\<close> block.\<close>

definition ratio_entry :: "ratio_kind \<Rightarrow> pyfloat \<Rightarrow> pyfloat \<Rightarrow> py_error + ratio_record" where
  "ratio_entry k num den =
     err_bind (percent num den) (\<lambda>r.
     err_bind (py_int num) (\<lambda>n.
     err_bind (py_int den) (\<lambda>b.
       Inr \<lparr>kind = k, ratio = r, numerator_amount = n, base_amount = b\<rparr>)))"

definition guarded_ratio :: "ratio_kind \<Rightarrow> pyfloat \<Rightarrow> pyfloat \<Rightarrow> py_error + ratio_record list" where
  "guarded_ratio k num den =
     (if py_gt0 den then err_bind (ratio_entry k num den) (\<lambda>r. Inr [r]) else Inr [])"

definition profitability_ratios ::
  "line_item list \<Rightarrow> line_item list \<Rightarrow> py_error + ratio_record list" where
  "profitability_ratios bs_data is_data =
     (if bs_data = [] \<or> is_data = [] then Inr []
      else
        (let bs_dict = account_dict bs_data;
             is_dict = account_dict is_data
         in err_bind (safe_convert (amount_of is_dict acct_net_income)) (\<lambda>net_income.
            err_bind (safe_convert (amount_of bs_dict acct_total_equity)) (\<lambda>total_equity.
            err_bind (guarded_ratio ROE net_income total_equity) (\<lambda>r1.
            err_bind (safe_convert (amount_of bs_dict acct_total_assets)) (\<lambda>total_assets.
            err_bind (guarded_ratio ROA net_income total_assets) (\<lambda>r2.
            err_bind (safe_convert (amount_of is_dict acct_operating_income)) (\<lambda>operating_income.
            err_bind (safe_convert (amount_of is_dict acct_revenue)) (\<lambda>revenue.
            err_bind (guarded_ratio OperatingMargin operating_income revenue) (\<lambda>r3.
            err_bind (guarded_ratio NetMargin net_income revenue) (\<lambda>r4.
              Inr (r1 @ r2 @ r3 @ r4))))))))))))"

text \<open>
  What each of the four blocks of the source reads: the account it guards on and divides
  by, the group that account is looked up in, and the account it divides.
\<close>

fun denominator_account :: "ratio_kind \<Rightarrow> string" where
  "denominator_account ROE = acct_total_equity"
| "denominator_account ROA = acct_total_assets"
| "denominator_account OperatingMargin = acct_revenue"
| "denominator_account NetMargin = acct_revenue"

fun denominator_group :: "ratio_kind \<Rightarrow> line_item list \<Rightarrow> line_item list \<Rightarrow> line_item list" where
  "denominator_group ROE bs_data is_data = bs_data"
| "denominator_group ROA bs_data is_data = bs_data"
| "denominator_group OperatingMargin bs_data is_data = is_data"
| "denominator_group NetMargin bs_data is_data = is_data"

fun numerator_account :: "ratio_kind \<Rightarrow> string" where
  "numerator_account ROE = acct_net_income"
| "numerator_account ROA = acct_net_income"
| "numerator_account OperatingMargin = acct_operating_income"
| "numerator_account NetMargin = acct_net_income"

definition denominator_value :: "ratio_kind \<Rightarrow> line_item list \<Rightarrow> line_item list \<Rightarrow> pyval" where
  "denominator_value k bs_data is_data =
     amount_of (account_dict (denominator_group k bs_data is_data)) (denominator_account k)"

definition numerator_value :: "ratio_kind \<Rightarrow> line_item list \<Rightarrow> pyval" where
  "numerator_value k is_data = amount_of (account_dict is_data) (numerator_account k)"

section \<open>Statement partitioner (multi-year path)\<close>

text \<open>
  \<open>year_data\<close> of \<open>_create_analysis_summary\<close> (app.py) and of
  \<open>create_period_charts\<close> (chart_service.py) is a dict from the year to
  \<open>{'BS': [], 'IS': []}\<close>. A Python dict keeps its keys in insertion order, which
  an association list updated with \<open>AList.update\<close> does as well.
\<close>

record year_groups =
  BS :: "line_item list"
  IS :: "line_item list"

type_synonym year_data = "(string \<times> year_groups) list"

definition empty_groups :: year_groups where
  "empty_groups = \<lparr>BS = [], IS = []\<rparr>"

definition groups_of :: "year_data \<Rightarrow> string \<Rightarrow> year_groups" where
  "groups_of yd year = (case map_of yd year of Some g \<Rightarrow> g | None \<Rightarrow> empty_groups)"

text \<open>One turn of the loop \<open>for _, row in df.iterrows()\<close>.\<close>

definition group_row :: "year_data \<Rightarrow> line_item \<Rightarrow> year_data" where
  "group_row yd row =
     (let year = bsns_year row;
          yd1 = (if year \<notin> fst ` set yd then AList.update year empty_groups yd else yd);
          g = groups_of yd1 year;
          fs = fs_div row
      in if fs \<in> set [''BS'', ''IS'', ''CFS''] then
           (if fs = ''CFS'' then
              AList.update year (g\<lparr>BS := BS g @ [row], IS := IS g @ [row]\<rparr>) yd1
            else if fs = ''BS'' then
              AList.update year (g\<lparr>BS := BS g @ [row]\<rparr>) yd1
            else
              AList.update year (g\<lparr>IS := IS g @ [row]\<rparr>) yd1)
         else yd1)"

definition group_by_year :: "line_item list \<Rightarrow> year_data" where
  "group_by_year financial_data = foldl group_row [] financial_data"

section \<open>Aggregation summary builder\<close>

text \<open>
  \<open>_create_analysis_summary\<close> (app.py). The amounts go through the builtin
  \<open>float\<close> here, not through \<open>safe_convert\<close>. \<open>roe\<close> and \<open>roa\<close> are a
  float, or the int \<open>0\<close> of the \<open>else\<close> branch.
\<close>

record key_metric =
  revenue :: pyfloat
  net_income :: pyfloat
  total_assets :: pyfloat
  total_equity :: pyfloat
  roe :: pyval
  roa :: pyval

record analysis_summary =
  period :: string
  total_years :: nat
  years :: "string list"
  key_metrics :: "(string \<times> key_metric) list"

text \<open>
  The dict literal stored under \<open>summary['key_metrics'][year]\<close> (app.py 276-283),
  as its items in the order they are written.
\<close>

definition metric_dict :: "key_metric \<Rightarrow> (string \<times> pyval) list" where
  "metric_dict m =
     [(''revenue'', VFloat (revenue m)), (''net_income'', VFloat (net_income m)),
      (''total_assets'', VFloat (total_assets m)), (''total_equity'', VFloat (total_equity m)),
      (''roe'', roe m), (''roa'', roa m)]"

definition guarded_percent :: "pyfloat \<Rightarrow> pyfloat \<Rightarrow> py_error + pyval" where
  "guarded_percent num den =
     (if py_gt0 den then err_bind (percent num den) (\<lambda>r. Inr (VFloat r)) else Inr (VInt 0))"

definition year_metrics :: "line_item list \<Rightarrow> line_item list \<Rightarrow> py_error + key_metric" where
  "year_metrics bs_data is_data =
     (let bs_dict = account_dict bs_data;
          is_dict = account_dict is_data
      in err_bind (py_float (amount_of is_dict acct_revenue)) (\<lambda>rev.
         err_bind (py_float (amount_of is_dict acct_net_income)) (\<lambda>ni.
         err_bind (py_float (amount_of bs_dict acct_total_assets)) (\<lambda>ta.
         err_bind (py_float (amount_of bs_dict acct_total_equity)) (\<lambda>te.
         err_bind (guarded_percent ni te) (\<lambda>roe_v.
         err_bind (guarded_percent ni ta) (\<lambda>roa_v.
           Inr \<lparr>revenue = rev, net_income = ni, total_assets = ta, total_equity = te,
                roe = roe_v, roa = roa_v\<rparr>)))))))"

text \<open>The negation of the test \<open>if not bs_data or not is_data: continue\<close>.\<close>

definition both_groups :: "year_data \<Rightarrow> string \<Rightarrow> bool" where
  "both_groups yd year \<longleftrightarrow> BS (groups_of yd year) \<noteq> [] \<and> IS (groups_of yd year) \<noteq> []"

text \<open>The loop \<open>for year in sorted(year_data.keys())\<close>; an exception ends it.\<close>

fun key_metrics_loop ::
  "year_data \<Rightarrow> string list \<Rightarrow> (string \<times> key_metric) list
     \<Rightarrow> py_error + (string \<times> key_metric) list" where
  "key_metrics_loop yd [] km = Inr km"
| "key_metrics_loop yd (year # ys) km =
     (let bs_data = BS (groups_of yd year);
          is_data = IS (groups_of yd year)
      in if bs_data = [] \<or> is_data = [] then key_metrics_loop yd ys km
         else (case year_metrics bs_data is_data of
                 Inl e \<Rightarrow> Inl e
               | Inr m \<Rightarrow> key_metrics_loop yd ys (AList.update year m km)))"

definition nyeon :: string where
  "nyeon = [CHR 0xEB, CHR 0x85, CHR 0x84]"

text \<open>\<open>except Exception\<close> turns every exception into the result \<open>None\<close>.\<close>

definition create_analysis_summary ::
  "line_item list \<Rightarrow> string \<Rightarrow> string \<Rightarrow> analysis_summary option" where
  "create_analysis_summary financial_data start_year end_year =
     (let year_data = group_by_year financial_data;
          sorted_years = sort (map fst year_data)
      in case key_metrics_loop year_data sorted_years [] of
           Inl e \<Rightarrow> None
         | Inr km \<Rightarrow>
             Some \<lparr>period = start_year @ nyeon @ '' ~ '' @ end_year @ nyeon,
                   total_years = length year_data,
                   years = sorted_years,
                   key_metrics = km\<rparr>)"

text \<open>
  The number a year string denotes when read as a decimal numeral, which is the order
  the specification asks the years to be listed in.
\<close>

definition year_number :: "string \<Rightarrow> nat" where
  "year_number y = nat_of_digits y"

section \<open>Statement split (single-year path)\<close>

text \<open>
  \<open>create_financial_charts\<close> (chart_service.py) filters on \<open>sj_div\<close> and hands
  the two lists to the chart builders. The builders draw with the plotting library; the
  model records which builder is called with which rows, in the order of the calls, when
  no builder raises. A builder that raises ends the function, and the calls after it do
  not happen: the calls the code makes are then a prefix of this list.
\<close>

datatype chart_call =
    Balance_sheet_chart "line_item list"
  | Income_statement_chart "line_item list"
  | Profitability_radar_chart "line_item list" "line_item list"
  | Debt_ratio_donut_chart "line_item list"
  | Combined_financial_ratios_chart "line_item list" "line_item list"

fun chart_rows :: "chart_call \<Rightarrow> line_item list" where
  "chart_rows (Balance_sheet_chart bs) = bs"
| "chart_rows (Income_statement_chart is) = is"
| "chart_rows (Profitability_radar_chart bs is) = bs @ is"
| "chart_rows (Debt_ratio_donut_chart bs) = bs"
| "chart_rows (Combined_financial_ratios_chart bs is) = bs @ is"

definition bs_rows :: "line_item list \<Rightarrow> line_item list" where
  "bs_rows financial_data = filter (\<lambda>item. sj_div item = ''BS'') financial_data"

definition is_rows :: "line_item list \<Rightarrow> line_item list" where
  "is_rows financial_data = filter (\<lambda>item. sj_div item = ''IS'') financial_data"

definition create_financial_charts :: "line_item list \<Rightarrow> chart_call list" where
  "create_financial_charts financial_data =
     (if financial_data = [] then []
      else
        (let bs_data = bs_rows financial_data;
             is_data = is_rows financial_data
         in (if bs_data \<noteq> [] then [Balance_sheet_chart bs_data] else [])
          @ (if is_data \<noteq> [] then [Income_statement_chart is_data] else [])
          @ (if bs_data \<noteq> [] \<and> is_data \<noteq> []
             then [Profitability_radar_chart bs_data is_data, Debt_ratio_donut_chart bs_data]
             else [])
          @ (if bs_data \<noteq> [] \<and> is_data \<noteq> []
             then [Combined_financial_ratios_chart bs_data is_data]
             else [])))"

section \<open>Notation for example rows\<close>

abbreviation Row :: "string \<Rightarrow> string \<Rightarrow> string \<Rightarrow> string \<Rightarrow> string \<Rightarrow> line_item" where
  "Row y fs sj a v \<equiv>
     \<lparr>bsns_year = y, fs_div = fs, sj_div = sj, account_nm = a, thstrm_amount = v\<rparr>"

section \<open>Properties of the partitioner\<close>

lemma groups_of_update:
  "groups_of (AList.update k v yd) y = (if y = k then v else groups_of yd y)"
  by (simp add: groups_of_def update_conv')

lemma keys_group_row:
  "fst ` set (group_row yd row) = insert (bsns_year row) (fst ` set yd)"
  by (auto simp: group_row_def Let_def dom_update)

lemma distinct_group_row:
  "distinct (map fst yd) \<Longrightarrow> distinct (map fst (group_row yd row))"
  by (simp add: group_row_def Let_def distinct_update)

lemma groups_of_missing:
  "y \<notin> fst ` set yd \<Longrightarrow> groups_of yd y = empty_groups"
  using map_of_eq_None_iff [of yd y] by (simp add: groups_of_def)

lemma groups_of_Nil: "groups_of [] y = empty_groups"
  by (simp add: groups_of_def)

lemma BS_group_row:
  "BS (groups_of (group_row yd row) y) =
     BS (groups_of yd y) @
       (if bsns_year row = y \<and> (fs_div row = ''BS'' \<or> fs_div row = ''CFS'') then [row] else [])"
  by (auto simp: group_row_def Let_def groups_of_update groups_of_missing empty_groups_def)

lemma IS_group_row:
  "IS (groups_of (group_row yd row) y) =
     IS (groups_of yd y) @
       (if bsns_year row = y \<and> (fs_div row = ''IS'' \<or> fs_div row = ''CFS'') then [row] else [])"
  by (auto simp: group_row_def Let_def groups_of_update groups_of_missing empty_groups_def)

lemma BS_foldl_group_row:
  "BS (groups_of (foldl group_row yd rows) y) =
     BS (groups_of yd y) @
       filter (\<lambda>row. bsns_year row = y \<and> (fs_div row = ''BS'' \<or> fs_div row = ''CFS'')) rows"
  by (induction rows arbitrary: yd) (simp_all add: BS_group_row)

lemma IS_foldl_group_row:
  "IS (groups_of (foldl group_row yd rows) y) =
     IS (groups_of yd y) @
       filter (\<lambda>row. bsns_year row = y \<and> (fs_div row = ''IS'' \<or> fs_div row = ''CFS'')) rows"
  by (induction rows arbitrary: yd) (simp_all add: IS_group_row)

lemma keys_foldl_group_row:
  "fst ` set (foldl group_row yd rows) = fst ` set yd \<union> bsns_year ` set rows"
  by (induction rows arbitrary: yd) (auto simp: keys_group_row)

lemma distinct_foldl_group_row:
  "distinct (map fst yd) \<Longrightarrow> distinct (map fst (foldl group_row yd rows))"
  by (induction rows arbitrary: yd) (simp_all add: distinct_group_row)

lemma keys_group_by_year:
  "set (map fst (group_by_year financial_data)) = bsns_year ` set financial_data"
  using keys_foldl_group_row [of "[]" financial_data] by (simp add: group_by_year_def)

lemma distinct_group_by_year: "distinct (map fst (group_by_year financial_data))"
  by (simp add: group_by_year_def distinct_foldl_group_row)

lemma BS_group_by_year:
  "BS (groups_of (group_by_year financial_data) y) =
     filter (\<lambda>row. bsns_year row = y \<and> (fs_div row = ''BS'' \<or> fs_div row = ''CFS''))
       financial_data"
  by (simp add: group_by_year_def BS_foldl_group_row groups_of_Nil empty_groups_def)

lemma IS_group_by_year:
  "IS (groups_of (group_by_year financial_data) y) =
     filter (\<lambda>row. bsns_year row = y \<and> (fs_div row = ''IS'' \<or> fs_div row = ''CFS''))
       financial_data"
  by (simp add: group_by_year_def IS_foldl_group_row groups_of_Nil empty_groups_def)

text \<open>
  C6. The partitioner routes every row by its \<open>fs_div\<close> code, under the row's own
  year: the BalanceSheet group of a year holds, in input order, exactly the rows of that
  year tagged \<open>BS\<close> or \<open>CFS\<close>, and the IncomeStatement group exactly those tagged
  \<open>IS\<close> or \<open>CFS\<close>. So a \<open>BS\<close> row is in the BalanceSheet group only, an
  \<open>IS\<close> row in the IncomeStatement group only, a \<open>CFS\<close> row in both, and a row
  with any other tag in neither.
\<close>

theorem partitioner_routes_by_fs_div:
  "BS (groups_of (group_by_year financial_data) y) =
     filter (\<lambda>row. bsns_year row = y \<and> (fs_div row = ''BS'' \<or> fs_div row = ''CFS''))
       financial_data
   \<and> IS (groups_of (group_by_year financial_data) y) =
     filter (\<lambda>row. bsns_year row = y \<and> (fs_div row = ''IS'' \<or> fs_div row = ''CFS''))
       financial_data"
  by (simp add: BS_group_by_year IS_group_by_year)

section \<open>Properties of the normalizer\<close>

lemma set_dropWhile_space: "c \<in> set s \<Longrightarrow> \<not> P c \<Longrightarrow> c \<in> set (dropWhile P s)"
  by (induction s) auto

lemma strip_keeps: "c \<in> set s \<Longrightarrow> \<not> is_space c \<Longrightarrow> c \<in> set (strip s)"
  by (simp add: strip_def set_dropWhile_space)

lemma underscores_keeps:
  "underscores prev s = Some t \<Longrightarrow> c \<in> set s \<Longrightarrow> c \<noteq> CHR ''_'' \<Longrightarrow> c \<in> set t"
  by (induction s arbitrary: prev t) (auto split: if_splits)

lemma split_sign_chars:
  "split_sign s = (neg, r) \<Longrightarrow> c \<in> set s \<Longrightarrow> c \<in> set r \<or> c = CHR ''-'' \<or> c = CHR ''+''"
  by (auto simp: split_sign_def split: list.splits if_splits)

lemma take_drop_digit:
  "c \<in> set s \<Longrightarrow> is_digit c \<or> c \<in> set (dropWhile is_digit s)"
  by (induction s) auto

lemma comma_facts:
  "\<not> is_digit CHR '',''" "\<not> is_space CHR '',''" "to_lower CHR '','' = CHR '',''"
  by (simp_all add: is_digit_def is_space_def to_lower_def)

lemma parse_exponent_comma:
  assumes "parse_exponent s = Some e"
  shows "CHR '','' \<notin> set s"
proof (cases s)
  case Nil
  then show ?thesis by simp
next
  case (Cons c cs)
  obtain neg ds where ss: "split_sign cs = (neg, ds)" by (cases "split_sign cs")
  from assms Cons ss have c: "c = CHR ''e'' \<or> c = CHR ''E''" and ds: "list_all is_digit ds"
    by (simp_all add: parse_exponent_def split: if_splits)
  have "CHR '','' \<notin> set cs"
  proof
    assume "CHR '','' \<in> set cs"
    from split_sign_chars [OF ss this] have "CHR '','' \<in> set ds" by simp
    with ds comma_facts(1) show False by (auto simp: list_all_iff)
  qed
  with c Cons show ?thesis by auto
qed

lemma parse_decimal_comma:
  assumes "parse_decimal s = Some q"
  shows "CHR '','' \<notin> set s"
proof
  assume c: "CHR '','' \<in> set s"
  obtain neg r0 where ss: "split_sign s = (neg, r0)" by (cases "split_sign s")
  from split_sign_chars [OF ss c] have c0: "CHR '','' \<in> set r0" by simp
  with take_drop_digit [of "CHR '',''" r0] have c1: "CHR '','' \<in> set (dropWhile is_digit r0)"
    by (simp add: comma_facts)
  define r1 where "r1 = dropWhile is_digit r0"
  from c1 have c1': "CHR '','' \<in> set r1" by (simp only: r1_def)
  define X where "X = (case r1 of [] \<Rightarrow> ([], [])
                      | c # cs \<Rightarrow>
                          if c = CHR ''.'' then (takeWhile is_digit cs, dropWhile is_digit cs)
                          else ([], r1))"
  obtain fp r2 where "X = (fp, r2)" by (cases X)
  then have fr: "(case r1 of [] \<Rightarrow> ([], [])
                      | c # cs \<Rightarrow>
                          if c = CHR ''.'' then (takeWhile is_digit cs, dropWhile is_digit cs)
                          else ([], r1)) = (fp, r2)"
    by (simp add: X_def)
  have c2: "CHR '','' \<in> set r2"
  proof (cases r1)
    case Nil
    with c1' show ?thesis by simp
  next
    case (Cons d ds)
    show ?thesis
    proof (cases "d = CHR ''.''")
      case True
      with Cons c1' have "CHR '','' \<in> set ds" by auto
      with take_drop_digit [of "CHR '',''" ds] have "CHR '','' \<in> set (dropWhile is_digit ds)"
        by (simp add: comma_facts)
      with fr Cons True show ?thesis by simp
    next
      case False
      with fr Cons c1' show ?thesis by auto
    qed
  qed
  from assms obtain e where "parse_exponent r2 = Some e"
    by (simp add: parse_decimal_def Let_def ss fr [unfolded r1_def] split: if_splits option.splits)
  with parse_exponent_comma c2 show False by blast
qed

lemma parse_inf_or_nan_comma:
  assumes "parse_inf_or_nan s = Some f"
  shows "CHR '','' \<notin> set s"
proof
  assume c: "CHR '','' \<in> set s"
  obtain neg r where ss: "split_sign s = (neg, r)" by (cases "split_sign s")
  from split_sign_chars [OF ss c] have "CHR '','' \<in> set r" by simp
  then have "to_lower CHR '','' \<in> set (map to_lower r)" by (metis image_eqI list.set_map)
  then have m: "CHR '','' \<in> set (map to_lower r)" by (simp add: comma_facts)
  from assms ss have "map to_lower r = ''inf'' \<or> map to_lower r = ''infinity'' \<or> map to_lower r = ''nan''"
    by (auto simp: parse_inf_or_nan_def Let_def split: if_splits)
  with m show False by auto
qed

lemma float_of_string_comma:
  assumes "float_of_string s = Inr f"
  shows "CHR '','' \<notin> set s"
proof
  assume c: "CHR '','' \<in> set s"
  from assms obtain t where t: "(if CHR ''_'' \<in> set s then underscores (CHR 0x00) s else Some s) = Some t"
    by (auto simp: float_of_string_def split: option.splits)
  have "CHR '','' \<in> set t"
    using t c underscores_keeps [of "CHR 0x00" s t "CHR '',''"] by (auto split: if_splits)
  then have u: "CHR '','' \<in> set (strip t)" by (simp add: strip_keeps comma_facts)
  from assms t have "(\<exists>q. parse_decimal (strip t) = Some q) \<or> (\<exists>g. parse_inf_or_nan (strip t) = Some g)"
    by (auto simp: float_of_string_def Let_def split: option.splits)
  with u parse_decimal_comma parse_inf_or_nan_comma show False by blast
qed

lemma remove_commas_id: "CHR '','' \<notin> set s \<Longrightarrow> remove_commas s = s"
  by (induction s) (auto simp: remove_commas_def)

lemma float_of_string_cases:
  obtains (bad_underscore) "float_of_string s = Inl ValueError"
  | (decimal) q where "float_of_string s = Inr (fl_round q)"
  | (inf_nan) f where "float_of_string s = Inr f" "f = PInf \<or> f = NInf \<or> f = NaN"
proof (cases "if CHR ''_'' \<in> set s then underscores (CHR 0x00) s else Some s")
  case None
  then have "float_of_string s = Inl ValueError" unfolding float_of_string_def by simp
  then show ?thesis by (rule bad_underscore)
next
  case (Some t)
  show ?thesis
  proof (cases "parse_decimal (strip t)")
    case pd: (Some q)
    with Some have "float_of_string s = Inr (fl_round q)"
      unfolding float_of_string_def by simp
    then show ?thesis by (rule decimal)
  next
    case pd: None
    show ?thesis
    proof (cases "parse_inf_or_nan (strip t)")
      case None
      with Some pd have "float_of_string s = Inl ValueError"
        unfolding float_of_string_def by simp
      then show ?thesis by (rule bad_underscore)
    next
      case pin: (Some f)
      with Some pd have "float_of_string s = Inr f"
        unfolding float_of_string_def by simp
      moreover from pin have "f = PInf \<or> f = NInf \<or> f = NaN"
        by (cases "split_sign (strip t)") (auto simp: parse_inf_or_nan_def Let_def split: if_splits)
      ultimately show ?thesis by (rule inf_nan)
    qed
  qed
qed

lemma float_of_string_error: "float_of_string s = Inl e \<Longrightarrow> e = ValueError"
  by (cases s rule: float_of_string_cases) simp_all

lemma float_of_int_error: "float_of_int n = Inl e \<Longrightarrow> e = OverflowError"
  by (auto simp: float_of_int_def split: pyfloat.splits)

lemma float_of_int_0: "float_of_int 0 = Inr (Fin 0)"
  by (simp add: float_of_int_def fl_round_def)

lemma safe_convert_py_float:
  assumes "py_float v = Inr f"
  shows "safe_convert v = Inr f"
proof (cases v)
  case (VStr s)
  with assms have f: "float_of_string s = Inr f" by simp
  then have "remove_commas s = s" by (simp add: float_of_string_comma remove_commas_id)
  with f VStr show ?thesis by (simp add: safe_convert_def)
next
  case (VInt n)
  with assms show ?thesis by (simp add: safe_convert_def)
next
  case (VFloat g)
  with assms show ?thesis by (simp add: safe_convert_def)
qed (use assms in simp_all)

lemma safe_convert_VStr: "\<exists>f. safe_convert (VStr s) = Inr f"
  by (cases "float_of_string (remove_commas s)") (auto simp: safe_convert_def dest: float_of_string_error)

lemma safe_convert_amount_of: "\<exists>f. safe_convert (amount_of d name) = Inr f"
proof (cases "d name")
  case None
  then show ?thesis by (simp add: amount_of_def safe_convert_def float_of_int_0)
next
  case (Some item)
  then show ?thesis using safe_convert_VStr by (simp add: amount_of_def)
qed

lemma safe_convert_error: "safe_convert v = Inl e \<Longrightarrow> e = OverflowError \<and> (\<exists>n. v = VInt n)"
  by (cases v) (auto simp: safe_convert_def split: sum.splits if_splits dest: float_of_string_error float_of_int_error)

section \<open>Properties of the ratio deriver and the summary builder\<close>

lemma err_bind_Inr: "err_bind m f = Inr y \<longleftrightarrow> (\<exists>x. m = Inr x \<and> f x = Inr y)"
  by (cases m) (simp_all add: err_bind_def)

lemma err_bindE:
  assumes "err_bind m f = Inr y"
  obtains x where "m = Inr x" "f x = Inr y"
  using assms by (auto simp: err_bind_Inr)

lemma guarded_ratio_kinds:
  "guarded_ratio k num den = Inr rs \<Longrightarrow> kind ` set rs = (if py_gt0 den then {k} else {})"
  by (auto simp: guarded_ratio_def ratio_entry_def err_bind_Inr split: if_splits)

lemma profitability_ratios_empty:
  "bs_data = [] \<or> is_data = [] \<Longrightarrow> profitability_ratios bs_data is_data = Inr []"
  by (simp add: profitability_ratios_def)

lemma profitability_ratios_Inr:
  assumes "profitability_ratios bs_data is_data = Inr rs" "bs_data \<noteq> []" "is_data \<noteq> []"
  obtains ni te ta oi rv r1 r2 r3 r4 where
    "safe_convert (amount_of (account_dict is_data) acct_net_income) = Inr ni"
    "safe_convert (amount_of (account_dict bs_data) acct_total_equity) = Inr te"
    "guarded_ratio ROE ni te = Inr r1"
    "safe_convert (amount_of (account_dict bs_data) acct_total_assets) = Inr ta"
    "guarded_ratio ROA ni ta = Inr r2"
    "safe_convert (amount_of (account_dict is_data) acct_operating_income) = Inr oi"
    "safe_convert (amount_of (account_dict is_data) acct_revenue) = Inr rv"
    "guarded_ratio OperatingMargin oi rv = Inr r3"
    "guarded_ratio NetMargin ni rv = Inr r4"
    "rs = r1 @ r2 @ r3 @ r4"
proof -
  from assms have "err_bind (safe_convert (amount_of (account_dict is_data) acct_net_income)) (\<lambda>net_income.
            err_bind (safe_convert (amount_of (account_dict bs_data) acct_total_equity)) (\<lambda>total_equity.
            err_bind (guarded_ratio ROE net_income total_equity) (\<lambda>r1.
            err_bind (safe_convert (amount_of (account_dict bs_data) acct_total_assets)) (\<lambda>total_assets.
            err_bind (guarded_ratio ROA net_income total_assets) (\<lambda>r2.
            err_bind (safe_convert (amount_of (account_dict is_data) acct_operating_income)) (\<lambda>operating_income.
            err_bind (safe_convert (amount_of (account_dict is_data) acct_revenue)) (\<lambda>revenue.
            err_bind (guarded_ratio OperatingMargin operating_income revenue) (\<lambda>r3.
            err_bind (guarded_ratio NetMargin net_income revenue) (\<lambda>r4.
              Inr (r1 @ r2 @ r3 @ r4)))))))))) = Inr rs"
    by (simp add: profitability_ratios_def Let_def)
  then obtain ni te ta oi rv r1 r2 r3 r4 where
    "safe_convert (amount_of (account_dict is_data) acct_net_income) = Inr ni"
    "safe_convert (amount_of (account_dict bs_data) acct_total_equity) = Inr te"
    "guarded_ratio ROE ni te = Inr r1"
    "safe_convert (amount_of (account_dict bs_data) acct_total_assets) = Inr ta"
    "guarded_ratio ROA ni ta = Inr r2"
    "safe_convert (amount_of (account_dict is_data) acct_operating_income) = Inr oi"
    "safe_convert (amount_of (account_dict is_data) acct_revenue) = Inr rv"
    "guarded_ratio OperatingMargin oi rv = Inr r3"
    "guarded_ratio NetMargin ni rv = Inr r4"
    "rs = r1 @ r2 @ r3 @ r4"
    unfolding err_bind_Inr by blast
  then show thesis by (rule that)
qed

lemma ratio_kind_iff:
  assumes "profitability_ratios bs_data is_data = Inr rs" "bs_data \<noteq> []" "is_data \<noteq> []"
  shows "k \<in> kind ` set rs \<longleftrightarrow>
           (\<exists>d. safe_convert (denominator_value k bs_data is_data) = Inr d \<and> py_gt0 d)"
proof -
  from assms obtain ni te ta oi rv r1 r2 r3 r4 where
    sc: "safe_convert (amount_of (account_dict bs_data) acct_total_equity) = Inr te"
      "safe_convert (amount_of (account_dict bs_data) acct_total_assets) = Inr ta"
      "safe_convert (amount_of (account_dict is_data) acct_revenue) = Inr rv"
    and g: "guarded_ratio ROE ni te = Inr r1" "guarded_ratio ROA ni ta = Inr r2"
      "guarded_ratio OperatingMargin oi rv = Inr r3" "guarded_ratio NetMargin ni rv = Inr r4"
    and rs: "rs = r1 @ r2 @ r3 @ r4"
    by (rule profitability_ratios_Inr)
  have "kind ` set rs = (if py_gt0 te then {ROE} else {}) \<union> (if py_gt0 ta then {ROA} else {})
      \<union> (if py_gt0 rv then {OperatingMargin} else {}) \<union> (if py_gt0 rv then {NetMargin} else {})"
    unfolding rs using g [THEN guarded_ratio_kinds] by (simp add: image_Un Un_assoc)
  then show ?thesis using sc by (cases k) (auto simp: denominator_value_def split: if_splits)
qed

lemma guarded_percent_not_gt0: "\<not> py_gt0 den \<Longrightarrow> guarded_percent num den = Inr (VInt 0)"
  by (simp add: guarded_percent_def)

lemma year_metrics_Inr:
  assumes "year_metrics bs_data is_data = Inr m"
  shows "py_float (amount_of (account_dict is_data) acct_revenue) = Inr (revenue m)
       \<and> py_float (amount_of (account_dict is_data) acct_net_income) = Inr (net_income m)
       \<and> py_float (amount_of (account_dict bs_data) acct_total_assets) = Inr (total_assets m)
       \<and> py_float (amount_of (account_dict bs_data) acct_total_equity) = Inr (total_equity m)
       \<and> guarded_percent (net_income m) (total_equity m) = Inr (roe m)
       \<and> guarded_percent (net_income m) (total_assets m) = Inr (roa m)"
proof -
  from assms have "err_bind (py_float (amount_of (account_dict is_data) acct_revenue)) (\<lambda>rev.
         err_bind (py_float (amount_of (account_dict is_data) acct_net_income)) (\<lambda>ni.
         err_bind (py_float (amount_of (account_dict bs_data) acct_total_assets)) (\<lambda>ta.
         err_bind (py_float (amount_of (account_dict bs_data) acct_total_equity)) (\<lambda>te.
         err_bind (guarded_percent ni te) (\<lambda>roe_v.
         err_bind (guarded_percent ni ta) (\<lambda>roa_v.
           Inr \<lparr>revenue = rev, net_income = ni, total_assets = ta, total_equity = te,
                roe = roe_v, roa = roa_v\<rparr>)))))) = Inr m"
    by (simp add: year_metrics_def Let_def)
  then show ?thesis
    unfolding err_bind_Inr by auto
qed

lemma key_metrics_loop_keys:
  "key_metrics_loop yd ys km = Inr km' \<Longrightarrow>
     fst ` set km' = fst ` set km \<union> {y \<in> set ys. both_groups yd y}"
proof (induction ys arbitrary: km)
  case Nil
  then show ?case by simp
next
  case (Cons year ys)
  show ?case
  proof (cases "both_groups yd year")
    case False
    with Cons.prems have "key_metrics_loop yd ys km = Inr km'"
      by (auto simp: both_groups_def Let_def)
    from Cons.IH [OF this] False show ?thesis by auto
  next
    case True
    with Cons.prems obtain m where
      "key_metrics_loop yd ys (AList.update year m km) = Inr km'"
      by (auto simp: both_groups_def Let_def split: sum.splits)
    from Cons.IH [OF this] True show ?thesis by (auto simp: dom_update)
  qed
qed

lemma key_metrics_loop_lookup:
  "key_metrics_loop yd ys km = Inr km' \<Longrightarrow>
     map_of km' y =
       (if y \<in> set ys \<and> both_groups yd y
        then (case year_metrics (BS (groups_of yd y)) (IS (groups_of yd y)) of
                Inl e \<Rightarrow> None | Inr m \<Rightarrow> Some m)
        else map_of km y)"
proof (induction ys arbitrary: km)
  case Nil
  then show ?case by simp
next
  case (Cons year ys)
  show ?case
  proof (cases "both_groups yd year")
    case False
    with Cons.prems have "key_metrics_loop yd ys km = Inr km'"
      by (auto simp: both_groups_def Let_def)
    from Cons.IH [OF this] False show ?thesis by auto
  next
    case True
    with Cons.prems obtain m where m: "year_metrics (BS (groups_of yd year)) (IS (groups_of yd year)) = Inr m"
      and "key_metrics_loop yd ys (AList.update year m km) = Inr km'"
      by (auto simp: both_groups_def Let_def split: sum.splits)
    from Cons.IH [OF this(2)] True m show ?thesis by (auto simp: update_conv')
  qed
qed

lemma key_metrics_loop_order:
  "key_metrics_loop yd ys km = Inr km' \<Longrightarrow> fst ` set km \<inter> set ys = {} \<Longrightarrow> distinct ys \<Longrightarrow>
     map fst km' = map fst km @ filter (both_groups yd) ys"
proof (induction ys arbitrary: km)
  case Nil
  then show ?case by simp
next
  case (Cons year ys)
  show ?case
  proof (cases "both_groups yd year")
    case False
    with Cons.prems have "key_metrics_loop yd ys km = Inr km'"
      by (auto simp: both_groups_def Let_def)
    from Cons.IH [OF this] Cons.prems False show ?thesis by auto
  next
    case True
    with Cons.prems obtain m where
      l: "key_metrics_loop yd ys (AList.update year m km) = Inr km'"
      by (auto simp: both_groups_def Let_def split: sum.splits)
    from Cons.prems have ny: "year \<notin> fst ` set km" by auto
    then have u: "map fst (AList.update year m km) = map fst km @ [year]"
      by (simp add: update_keys)
    have "fst ` set (AList.update year m km) \<inter> set ys = {}"
      using Cons.prems by (auto simp: dom_update)
    from Cons.IH [OF l this] Cons.prems True u show ?thesis by simp
  qed
qed

lemma create_analysis_summary_Some:
  assumes "create_analysis_summary financial_data start_year end_year = Some s"
  shows "years s = sort (map fst (group_by_year financial_data))"
    and "total_years s = length (group_by_year financial_data)"
    and "key_metrics_loop (group_by_year financial_data) (years s) [] = Inr (key_metrics s)"
    and "period s = start_year @ nyeon @ '' ~ '' @ end_year @ nyeon"
  using assms unfolding create_analysis_summary_def Let_def
  by (auto split: sum.splits)

lemma years_set:
  assumes "create_analysis_summary financial_data start_year end_year = Some s"
  shows "set (years s) = bsns_year ` set financial_data" "distinct (years s)" "sorted (years s)"
    "total_years s = card (bsns_year ` set financial_data)" "total_years s = length (years s)"
proof -
  note y = create_analysis_summary_Some(1,2) [OF assms]
  show "set (years s) = bsns_year ` set financial_data"
    using keys_group_by_year [of financial_data] by (simp add: y)
  show "distinct (years s)" by (simp add: y distinct_group_by_year)
  show "sorted (years s)" by (simp add: y)
  show "total_years s = length (years s)" by (simp add: y)
  have "card (set (map fst (group_by_year financial_data))) = length (map fst (group_by_year financial_data))"
    by (rule distinct_card) (rule distinct_group_by_year)
  then show "total_years s = card (bsns_year ` set financial_data)"
    using keys_group_by_year [of financial_data] by (simp add: y)
qed

subsection \<open>Year strings as numbers\<close>

lemma foldl_digits:
  "foldl (\<lambda>n c. 10 * n + digit_val c) n cs =
     n * 10 ^ length cs + foldl (\<lambda>n c. 10 * n + digit_val c) 0 cs"
proof (induction cs arbitrary: n)
  case Nil
  show ?case by simp
next
  case (Cons c cs)
  show ?case
    using Cons.IH [of "10 * n + digit_val c"] Cons.IH [of "digit_val c"]
    by (simp add: algebra_simps)
qed

lemma nat_of_digits_Cons:
  "nat_of_digits (c # cs) = digit_val c * 10 ^ length cs + nat_of_digits cs"
  using foldl_digits [of "digit_val c" cs] by (simp add: nat_of_digits_def)

lemma digit_val_le: "is_digit c \<Longrightarrow> digit_val c \<le> 9"
  by (auto simp: is_digit_def digit_val_def)

lemma digit_val_less: "is_digit c \<Longrightarrow> is_digit d \<Longrightarrow> c < d \<Longrightarrow> digit_val c < digit_val d"
  by (auto simp: is_digit_def digit_val_def)

lemma nat_of_digits_bound: "list_all is_digit cs \<Longrightarrow> nat_of_digits cs < 10 ^ length cs"
proof (induction cs)
  case Nil
  show ?case by (simp add: nat_of_digits_def)
next
  case (Cons c cs)
  then have "digit_val c \<le> 9" and "nat_of_digits cs < 10 ^ length cs"
    by (simp_all add: digit_val_le)
  then have "digit_val c * 10 ^ length cs + nat_of_digits cs < 9 * 10 ^ length cs + 10 ^ length cs"
    by (meson add_le_less_mono mult_le_mono1)
  then show ?case by (simp add: nat_of_digits_Cons)
qed

lemma nat_of_digits_mono:
  assumes "length a = length b" "list_all is_digit a" "list_all is_digit b" "a \<le> b"
  shows "nat_of_digits a \<le> nat_of_digits b"
  using assms
proof (induction a b rule: list_induct2)
  case Nil
  show ?case by simp
next
  case (Cons x xs y ys)
  from Cons.prems have d: "is_digit x" "is_digit y" "list_all is_digit xs" "list_all is_digit ys"
    by simp_all
  from Cons.prems(3) consider "x < y" | "x = y" "xs \<le> ys" by auto
  then show ?case
  proof cases
    case 1
    then have "digit_val x + 1 \<le> digit_val y" using digit_val_less [OF d(1,2)] by simp
    then have "(digit_val x + 1) * 10 ^ length xs \<le> digit_val y * 10 ^ length xs"
      by (rule mult_le_mono1)
    moreover have "nat_of_digits xs < 10 ^ length xs" by (rule nat_of_digits_bound [OF d(3)])
    ultimately show ?thesis using Cons.hyps by (simp add: nat_of_digits_Cons)
  next
    case 2
    with Cons.IH d have "nat_of_digits xs \<le> nat_of_digits ys" by simp
    with 2 Cons.hyps show ?thesis by (simp add: nat_of_digits_Cons)
  qed
qed

lemma sorted_year_numbers:
  assumes "sorted ys" "\<forall>y \<in> set ys. length y = n \<and> list_all is_digit y"
  shows "sorted (map year_number ys)"
proof -
  have "sorted_wrt (\<lambda>a b. year_number a \<le> year_number b) ys"
  proof (rule sorted_wrt_mono_rel [of ys "(\<le>)"])
    fix a b assume "a \<in> set ys" "b \<in> set ys" "a \<le> b"
    with assms(2) show "year_number a \<le> year_number b"
      by (simp add: year_number_def nat_of_digits_mono)
  next
    from assms(1) show "sorted_wrt (\<le>) ys" by simp
  qed
  then show ?thesis by (simp add: sorted_map)
qed

lemma both_groups_key:
  assumes "both_groups yd y"
  shows "y \<in> fst ` set yd"
proof (rule ccontr)
  assume "y \<notin> fst ` set yd"
  then have "BS (groups_of yd y) = []" by (simp add: groups_of_missing empty_groups_def)
  with assms show False by (simp add: both_groups_def)
qed

lemma key_metrics_keys:
  assumes "create_analysis_summary financial_data start_year end_year = Some s"
  shows "fst ` set (key_metrics s) = {y. both_groups (group_by_year financial_data) y}"
proof -
  note l = create_analysis_summary_Some(3) [OF assms]
  have "set (years s) = fst ` set (group_by_year financial_data)"
    by (simp add: create_analysis_summary_Some(1) [OF assms])
  with key_metrics_loop_keys [OF l] both_groups_key show ?thesis by auto
qed

lemma key_metrics_lookup:
  assumes "create_analysis_summary financial_data start_year end_year = Some s"
    and "both_groups (group_by_year financial_data) y"
  obtains m where "map_of (key_metrics s) y = Some m"
    and "year_metrics (BS (groups_of (group_by_year financial_data) y))
           (IS (groups_of (group_by_year financial_data) y)) = Inr m"
proof -
  note l = create_analysis_summary_Some(3) [OF assms(1)]
  from assms(2) key_metrics_keys [OF assms(1)] have "y \<in> fst ` set (key_metrics s)" by simp
  then obtain m where m: "map_of (key_metrics s) y = Some m"
    by (cases "map_of (key_metrics s) y") (auto simp: map_of_eq_None_iff)
  have "set (years s) = fst ` set (group_by_year financial_data)"
    by (simp add: create_analysis_summary_Some(1) [OF assms(1)])
  with assms(2) have "y \<in> set (years s)" by (simp add: both_groups_key)
  with key_metrics_loop_lookup [OF l, of y] assms(2) m
  have "year_metrics (BS (groups_of (group_by_year financial_data) y))
           (IS (groups_of (group_by_year financial_data) y)) = Inr m"
    by (simp split: sum.splits)
  with m show thesis by (rule that)
qed

lemma key_metrics_order:
  assumes "create_analysis_summary financial_data start_year end_year = Some s"
  shows "map fst (key_metrics s) = filter (both_groups (group_by_year financial_data)) (years s)"
  using key_metrics_loop_order [OF create_analysis_summary_Some(3) [OF assms]]
    years_set(2) [OF assms] by simp

lemma summary_zero_when_not_positive:
  assumes "year_metrics bs_data is_data = Inr m"
  shows "safe_convert (amount_of (account_dict bs_data) acct_total_equity) = Inr (total_equity m)"
    and "safe_convert (amount_of (account_dict bs_data) acct_total_assets) = Inr (total_assets m)"
    and "\<not> py_gt0 (total_equity m) \<Longrightarrow> roe m = VInt 0"
    and "\<not> py_gt0 (total_assets m) \<Longrightarrow> roa m = VInt 0"
  using year_metrics_Inr [OF assms]
  by (auto simp: safe_convert_py_float guarded_percent_not_gt0)

lemma account_dict_snoc:
  "account_dict (data @ [item]) = (account_dict data)(account_nm item \<mapsto> item)"
  by (simp add: account_dict_def)

lemma account_dict_last:
  "account_dict data name =
     (case filter (\<lambda>item. account_nm item = name) data of
        [] \<Rightarrow> None
      | x # xs \<Rightarrow> Some (last (x # xs)))"
proof (induction data rule: rev_induct)
  case Nil
  show ?case by (simp add: account_dict_def)
next
  case (snoc item data)
  show ?case
    using snoc unfolding account_dict_snoc
    by (auto split: list.splits)
qed








lemma ratio_absent_iff_not_positive:
  assumes "profitability_ratios bs_data is_data = Inr rs"
    and "safe_convert (denominator_value k bs_data is_data) = Inr d" "\<not> py_gt0 d"
  shows "k \<notin> kind ` set rs"
proof (cases "bs_data = [] \<or> is_data = []")
  case True
  with assms(1) show ?thesis by (simp add: profitability_ratios_def)
next
  case False
  with ratio_kind_iff [OF assms(1), of k] assms(2,3) show ?thesis by auto
qed

lemma floor_log2_pow2:
  assumes "0 \<le> k"
  shows "floor_log2 (pow2 k) = k"
proof -
  have "quotient_of (rat_of_int (2 ^ nat k)) = (2 ^ nat k, 1)"
    unfolding of_int_rat quotient_of_Fract by (simp add: Rat.normalize_def)
  then have q: "quotient_of (pow2 k) = (2 ^ nat k, 1)"
    using assms by (simp only: pow2_def if_True)
  have "bitlen 1 = 1" by (simp add: bitlen_def compute_floorlog)
  then have e0: "bitlen (2 ^ nat k) - bitlen 1 = k"
    using assms bitlen_pow2 [of 1 "nat k"] by simp
  show ?thesis
    unfolding floor_log2_def q prod.case Let_def e0 by simp
qed

lemma fl_round_overflow: "fl_round (pow2 1024) = PInf"
proof -
  have d: "\<bar>pow2 1024\<bar> / pow2 972 = 4503599627370496"
    by (simp add: pow2_def)
  have r: "round_half_even 4503599627370496 = 4503599627370496"
    unfolding round_half_even_def Let_def by simp
  have v: "4503599627370496 * pow2 972 = pow2 1024"
    by (simp add: pow2_def)
  have p: "pow2 1024 \<noteq> 0" "0 < pow2 1024" "\<bar>pow2 1024\<bar> = pow2 1024"
    by (simp_all add: pow2_def)
  have f: "floor_log2 (pow2 1024) = 1024" by (rule floor_log2_pow2) simp
  have "fl_round (pow2 1024) =
     (let a = \<bar>pow2 1024\<bar>;
             ex = max (floor_log2 a) (- 1022);
             u = pow2 (ex - 52);
             v = of_int (round_half_even (a / u)) * u
         in if 1024 \<le> floor_log2 v then PInf else Fin v)"
    unfolding fl_round_def using p(1,2) by (simp only: if_False if_True)
  also have "\<dots> = PInf"
    unfolding Let_def p(3) f by (simp add: d [unfolded p(3)] r v f)
  finally show ?thesis .
qed

lemma float_of_int_overflow: "float_of_int (2 ^ 1024) = Inl OverflowError"
proof -
  have "rat_of_int (2 ^ 1024) = pow2 1024" by (simp add: pow2_def)
  then show ?thesis unfolding float_of_int_def by (simp only: fl_round_overflow pyfloat.case)
qed

section \<open>Evaluation on concrete rows\<close>

lemmas round_eval = fl_round_def floor_log2_def pow2_def round_half_even_def Let_def
  bitlen_def compute_floorlog

lemmas parse_eval = float_of_string_def strip_def is_space_def is_digit_def parse_decimal_def
  parse_exponent_def parse_inf_or_nan_def split_sign_def nat_of_digits_def digit_val_def
  pow10_def remove_commas_def

lemmas acct_defs = acct_revenue_def acct_operating_income_def acct_net_income_def
  acct_total_assets_def acct_total_equity_def

lemmas ratios_eval = profitability_ratios_def account_dict_def amount_of_def safe_convert_def
  guarded_ratio_def ratio_entry_def percent_def err_bind_def float_of_int_def

lemmas summary_eval = create_analysis_summary_def group_by_year_def group_row_def
  groups_of_def empty_groups_def year_metrics_def guarded_percent_def percent_def err_bind_def
  account_dict_def amount_of_def float_of_int_def

section \<open>The claims\<close>

lemma c1_eval:
  "create_analysis_summary
     [Row ''2021'' ''IS'' ''IS'' acct_net_income ''400'',
      Row ''2022'' ''BS'' ''BS'' acct_total_equity ''200'',
      Row ''2022'' ''IS'' ''IS'' acct_net_income ''400''] ''2021'' ''2022''
   = Some \<lparr>period = ''2021'' @ nyeon @ '' ~ '' @ ''2022'' @ nyeon, total_years = 2,
            years = [''2021'', ''2022''],
            key_metrics = [(''2022'', \<lparr>revenue = Fin 0, net_income = Fin 400, total_assets = Fin 0,
               total_equity = Fin 200, roe = VFloat (Fin 200), roa = VInt 0\<rparr>)]\<rparr>"
  by (simp add: summary_eval acct_defs parse_eval round_eval)

text \<open>
  C1, counterexample. A range 2021 to 2022 in which 2021 has only an IncomeStatement row:
  the BalanceSheet group of 2021 is empty, yet \<open>years\<close> lists both years and
  \<open>total_years\<close> is 2.
\<close>

theorem summary_counts_year_without_balance_sheet:
  "BS (groups_of (group_by_year
         [Row ''2021'' ''IS'' ''IS'' acct_net_income ''400'',
          Row ''2022'' ''BS'' ''BS'' acct_total_equity ''200'',
          Row ''2022'' ''IS'' ''IS'' acct_net_income ''400'']) ''2021'') = []
   \<and> map_option years (create_analysis_summary
         [Row ''2021'' ''IS'' ''IS'' acct_net_income ''400'',
          Row ''2022'' ''BS'' ''BS'' acct_total_equity ''200'',
          Row ''2022'' ''IS'' ''IS'' acct_net_income ''400''] ''2021'' ''2022'')
       = Some [''2021'', ''2022'']
   \<and> map_option total_years (create_analysis_summary
         [Row ''2021'' ''IS'' ''IS'' acct_net_income ''400'',
          Row ''2022'' ''BS'' ''BS'' acct_total_equity ''200'',
          Row ''2022'' ''IS'' ''IS'' acct_net_income ''400''] ''2021'' ''2022'')
       = Some 2"
  by (simp add: c1_eval BS_group_by_year)

text \<open>
  C1, as the code has it. Whenever the summary is produced, a year has a metric bundle
  exactly when both its BalanceSheet and its IncomeStatement group are non-empty, while
  \<open>years\<close> holds every year that occurs in the rows and \<open>total_years\<close> is the
  number of those years: the two are computed from the keys of \<open>year_data\<close> before
  the loop that skips a year.
\<close>

theorem summary_years_and_metrics:
  assumes "create_analysis_summary financial_data start_year end_year = Some s"
  shows "(y \<in> fst ` set (key_metrics s) \<longleftrightarrow> both_groups (group_by_year financial_data) y)
       \<and> set (years s) = bsns_year ` set financial_data
       \<and> total_years s = card (bsns_year ` set financial_data)"
  using key_metrics_keys [OF assms] years_set(1,4) [OF assms] by simp

text \<open>
  C1, witness: the range of the counterexample. The summary is produced, 2021 has no bundle,
  2022 has one, and two years are counted.
\<close>

theorem summary_years_and_metrics_witness:
  "create_analysis_summary
     [Row ''2021'' ''IS'' ''IS'' acct_net_income ''400'',
      Row ''2022'' ''BS'' ''BS'' acct_total_equity ''200'',
      Row ''2022'' ''IS'' ''IS'' acct_net_income ''400''] ''2021'' ''2022''
   = Some \<lparr>period = ''2021'' @ nyeon @ '' ~ '' @ ''2022'' @ nyeon, total_years = 2,
            years = [''2021'', ''2022''],
            key_metrics = [(''2022'', \<lparr>revenue = Fin 0, net_income = Fin 400, total_assets = Fin 0,
               total_equity = Fin 200, roe = VFloat (Fin 200), roa = VInt 0\<rparr>)]\<rparr>
   \<and> \<not> both_groups (group_by_year
         [Row ''2021'' ''IS'' ''IS'' acct_net_income ''400'',
          Row ''2022'' ''BS'' ''BS'' acct_total_equity ''200'',
          Row ''2022'' ''IS'' ''IS'' acct_net_income ''400'']) ''2021''
   \<and> both_groups (group_by_year
         [Row ''2021'' ''IS'' ''IS'' acct_net_income ''400'',
          Row ''2022'' ''BS'' ''BS'' acct_total_equity ''200'',
          Row ''2022'' ''IS'' ''IS'' acct_net_income ''400'']) ''2022''
   \<and> card (bsns_year ` set
         [Row ''2021'' ''IS'' ''IS'' acct_net_income ''400'',
          Row ''2022'' ''BS'' ''BS'' acct_total_equity ''200'',
          Row ''2022'' ''IS'' ''IS'' acct_net_income ''400'']) = 2"
  using summary_years_and_metrics [OF c1_eval, of "''2021''"]
    summary_years_and_metrics [OF c1_eval, of "''2022''"] c1_eval
  by simp

text \<open>
  C2. Two BalanceSheet rows named total equity, 100 first and 200 second, and a net income
  of 400. The dict comprehension keeps the later row of a name (\<open>account_dict_last\<close>),
  so the deriver divides by 200: ROE is 200 and the base amount is 200, where the first
  occurrence would give 400 and 100.
\<close>

theorem ratio_deriver_uses_last_duplicate:
  "profitability_ratios
     [Row ''2022'' ''CFS'' ''BS'' acct_total_equity ''100'',
      Row ''2022'' ''OFS'' ''BS'' acct_total_equity ''200'']
     [Row ''2022'' ''CFS'' ''IS'' acct_net_income ''400'']
   = Inr [\<lparr>kind = ROE, ratio = Fin 200, numerator_amount = 400, base_amount = 200\<rparr>]"
  by (simp add: ratios_eval acct_defs parse_eval round_eval)

text \<open>
  C3. The summary builder converts amounts with the builtin \<open>float\<close>, not with
  \<open>safe_convert\<close>: the amount \<open>1,234\<close>, which the normalizer turns into 1234.0,
  raises \<open>ValueError\<close> there and the summary is \<open>None\<close>.
\<close>

theorem summary_missing_for_comma_amount:
  "safe_convert (VStr ''1,234'') = Inr (Fin 1234)
   \<and> create_analysis_summary
       [Row ''2022'' ''CFS'' ''IS'' acct_revenue ''1,234''] ''2022'' ''2022'' = None"
  by (simp add: summary_eval ratios_eval acct_defs parse_eval round_eval)





lemma remove_commas_idem: "remove_commas (remove_commas s) = remove_commas s"
  by (simp add: remove_commas_def)

lemma safe_convert_commas: "safe_convert (VStr s) = safe_convert (VStr (remove_commas s))"
  by (simp add: safe_convert_def remove_commas_idem)

lemma safe_convert_sentinels:
  "safe_convert (VStr ''-'') = Inr (Fin 0)" "safe_convert (VStr []) = Inr (Fin 0)"
  "safe_convert VNone = Inr (Fin 0)"
  by (simp_all add: safe_convert_def parse_eval round_eval)

text \<open>
  C5. \<open>safe_convert\<close> catches \<open>ValueError\<close> and \<open>TypeError\<close> only.
  \<open>float(n)\<close> of an int beyond the float range raises \<open>OverflowError\<close>, which
  leaves the function. Nothing else does (\<open>safe_convert_error\<close>); the sentinels and
  the commas behave as stated (\<open>safe_convert_sentinels\<close>, \<open>safe_convert_commas\<close>).
\<close>

theorem safe_convert_raises_on_huge_int:
  "safe_convert (VInt (2 ^ 1024)) = Inl OverflowError"
  unfolding safe_convert_def by (simp only: pyval.case float_of_int_overflow sum.case) simp

text \<open>
  C10. The single-year path splits on \<open>sj_div\<close>: every row that reaches a chart
  builder is a row of the input whose \<open>sj_div\<close> is \<open>BS\<close> or \<open>IS\<close>, the
  balance-sheet chart gets exactly the \<open>BS\<close> rows and the income-statement chart
  exactly the \<open>IS\<close> rows. No row is folded into both, whatever its \<open>fs_div\<close>.
\<close>

theorem single_year_split_by_sj_div:
  "(\<forall>c \<in> set (create_financial_charts financial_data). \<forall>item \<in> set (chart_rows c).
      item \<in> set financial_data \<and> (sj_div item = ''BS'' \<or> sj_div item = ''IS''))
   \<and> (\<forall>bs. Balance_sheet_chart bs \<in> set (create_financial_charts financial_data) \<longrightarrow>
         bs = filter (\<lambda>item. sj_div item = ''BS'') financial_data)
   \<and> (\<forall>is. Income_statement_chart is \<in> set (create_financial_charts financial_data) \<longrightarrow>
         is = filter (\<lambda>item. sj_div item = ''IS'') financial_data)"
  by (auto simp: create_financial_charts_def Let_def bs_rows_def is_rows_def split: if_splits)

lemma c10_eval:
  "create_financial_charts
     [Row ''2022'' ''CFS'' ''BS'' acct_total_equity ''100'',
      Row ''2022'' ''BS'' ''CFS'' acct_total_assets ''300'',
      Row ''2022'' ''CFS'' ''IS'' acct_net_income ''400'']
   = [Balance_sheet_chart [Row ''2022'' ''CFS'' ''BS'' acct_total_equity ''100''],
      Income_statement_chart [Row ''2022'' ''CFS'' ''IS'' acct_net_income ''400''],
      Profitability_radar_chart [Row ''2022'' ''CFS'' ''BS'' acct_total_equity ''100'']
        [Row ''2022'' ''CFS'' ''IS'' acct_net_income ''400''],
      Debt_ratio_donut_chart [Row ''2022'' ''CFS'' ''BS'' acct_total_equity ''100''],
      Combined_financial_ratios_chart [Row ''2022'' ''CFS'' ''BS'' acct_total_equity ''100'']
        [Row ''2022'' ''CFS'' ''IS'' acct_net_income ''400'']]"
  by (simp add: create_financial_charts_def bs_rows_def is_rows_def Let_def)

text \<open>
  C10, witness: three rows, the second with \<open>sj_div = CFS\<close> (and \<open>fs_div = BS\<close>).
  The balance-sheet chart gets the first row only and the second reaches no chart.
\<close>

theorem single_year_split_by_sj_div_witness:
  "Balance_sheet_chart [Row ''2022'' ''CFS'' ''BS'' acct_total_equity ''100'']
     \<in> set (create_financial_charts
       [Row ''2022'' ''CFS'' ''BS'' acct_total_equity ''100'',
        Row ''2022'' ''BS'' ''CFS'' acct_total_assets ''300'',
        Row ''2022'' ''CFS'' ''IS'' acct_net_income ''400''])
   \<and> [Row ''2022'' ''CFS'' ''BS'' acct_total_equity ''100''] =
       filter (\<lambda>item. sj_div item = ''BS'')
        [Row ''2022'' ''CFS'' ''BS'' acct_total_equity ''100'',
         Row ''2022'' ''BS'' ''CFS'' acct_total_assets ''300'',
         Row ''2022'' ''CFS'' ''IS'' acct_net_income ''400'']
   \<and> Row ''2022'' ''BS'' ''CFS'' acct_total_assets ''300''
       \<notin> set (concat (map chart_rows (create_financial_charts
           [Row ''2022'' ''CFS'' ''BS'' acct_total_equity ''100'',
            Row ''2022'' ''BS'' ''CFS'' acct_total_assets ''300'',
            Row ''2022'' ''CFS'' ''IS'' acct_net_income ''400''])))"
proof -
  let ?fd = "[Row ''2022'' ''CFS'' ''BS'' acct_total_equity ''100'',
        Row ''2022'' ''BS'' ''CFS'' acct_total_assets ''300'',
        Row ''2022'' ''CFS'' ''IS'' acct_net_income ''400'']"
  have m: "Balance_sheet_chart [Row ''2022'' ''CFS'' ''BS'' acct_total_equity ''100'']
     \<in> set (create_financial_charts ?fd)"
    by (simp add: c10_eval)
  note t = single_year_split_by_sj_div [of ?fd]
  from t m have "[Row ''2022'' ''CFS'' ''BS'' acct_total_equity ''100''] =
       filter (\<lambda>item. sj_div item = ''BS'') ?fd" by blast
  moreover from t have "\<forall>c \<in> set (create_financial_charts ?fd).
         Row ''2022'' ''BS'' ''CFS'' acct_total_assets ''300'' \<notin> set (chart_rows c)"
    by fastforce
  then have "Row ''2022'' ''BS'' ''CFS'' acct_total_assets ''300''
       \<notin> set (concat (map chart_rows (create_financial_charts ?fd)))"
    by auto
  ultimately show ?thesis using m by blast
qed

text \<open>
  The two policies for a zero denominator, when the summary is produced: for a year with
  both groups non-empty whose total equity normalizes to 0, the year's bundle has
  \<open>roe = 0\<close>, and a list the ratio deriver returns for the year's groups has no ROE
  record.
\<close>

lemma roe_policies_when_summary_produced:
  assumes "create_analysis_summary financial_data start_year end_year = Some s"
    and "both_groups (group_by_year financial_data) y"
    and "safe_convert (amount_of (account_dict (BS (groups_of (group_by_year financial_data) y)))
           acct_total_equity) = Inr (Fin 0)"
  shows "(\<exists>m. map_of (key_metrics s) y = Some m \<and> roe m = VInt 0)
       \<and> (\<forall>rs. profitability_ratios (BS (groups_of (group_by_year financial_data) y))
                 (IS (groups_of (group_by_year financial_data) y)) = Inr rs
               \<longrightarrow> ROE \<notin> kind ` set rs)"
proof
  from assms(1,2) obtain m where m: "map_of (key_metrics s) y = Some m"
    and ym: "year_metrics (BS (groups_of (group_by_year financial_data) y))
           (IS (groups_of (group_by_year financial_data) y)) = Inr m"
    by (rule key_metrics_lookup)
  from summary_zero_when_not_positive(1) [OF ym] assms(3) have "total_equity m = Fin 0" by simp
  then have "roe m = VInt 0" using summary_zero_when_not_positive(3) [OF ym] by simp
  with m show "\<exists>m. map_of (key_metrics s) y = Some m \<and> roe m = VInt 0" by blast
next
  show "\<forall>rs. profitability_ratios (BS (groups_of (group_by_year financial_data) y))
                 (IS (groups_of (group_by_year financial_data) y)) = Inr rs
               \<longrightarrow> ROE \<notin> kind ` set rs"
  proof (intro allI impI)
    fix rs
    assume "profitability_ratios (BS (groups_of (group_by_year financial_data) y))
                 (IS (groups_of (group_by_year financial_data) y)) = Inr rs"
    moreover from assms(3) have "safe_convert (denominator_value ROE
        (BS (groups_of (group_by_year financial_data) y))
        (IS (groups_of (group_by_year financial_data) y))) = Inr (Fin 0)"
      by (simp add: denominator_value_def)
    ultimately show "ROE \<notin> kind ` set rs" by (rule ratio_absent_iff_not_positive) simp
  qed
qed

lemma c7_summary:
  "create_analysis_summary
     [Row ''2022'' ''CFS'' ''BS'' acct_total_equity ''0'',
      Row ''2022'' ''CFS'' ''IS'' acct_net_income ''400''] ''2022'' ''2022''
   = Some \<lparr>period = ''2022'' @ nyeon @ '' ~ '' @ ''2022'' @ nyeon, total_years = 1,
            years = [''2022''],
            key_metrics = [(''2022'', \<lparr>revenue = Fin 0, net_income = Fin 400, total_assets = Fin 0,
               total_equity = Fin 0, roe = VInt 0, roa = VInt 0\<rparr>)]\<rparr>"
  by (simp add: summary_eval acct_defs parse_eval round_eval)

lemma c7_groups:
  "groups_of (group_by_year
     [Row ''2022'' ''CFS'' ''BS'' acct_total_equity ''0'',
      Row ''2022'' ''CFS'' ''IS'' acct_net_income ''400'']) ''2022''
   = \<lparr>BS = [Row ''2022'' ''CFS'' ''BS'' acct_total_equity ''0'',
             Row ''2022'' ''CFS'' ''IS'' acct_net_income ''400''],
        IS = [Row ''2022'' ''CFS'' ''BS'' acct_total_equity ''0'',
             Row ''2022'' ''CFS'' ''IS'' acct_net_income ''400'']\<rparr>"
  by (simp add: group_by_year_def group_row_def groups_of_def empty_groups_def Let_def)

lemma c7_ratios:
  "profitability_ratios
     [Row ''2022'' ''CFS'' ''BS'' acct_total_equity ''0'',
      Row ''2022'' ''CFS'' ''IS'' acct_net_income ''400'']
     [Row ''2022'' ''CFS'' ''BS'' acct_total_equity ''0'',
      Row ''2022'' ''CFS'' ''IS'' acct_net_income ''400''] = Inr []"
  by (simp add: ratios_eval acct_defs parse_eval round_eval)

text \<open>
  With total equity \<open>0\<close> and net income 400 in 2022, the summary is produced with
  \<open>roe = 0\<close> and the deriver returns the empty list.
\<close>

lemma roe_policies_when_summary_produced_example:
  "create_analysis_summary
     [Row ''2022'' ''CFS'' ''BS'' acct_total_equity ''0'',
      Row ''2022'' ''CFS'' ''IS'' acct_net_income ''400''] ''2022'' ''2022''
   = Some \<lparr>period = ''2022'' @ nyeon @ '' ~ '' @ ''2022'' @ nyeon, total_years = 1,
            years = [''2022''],
            key_metrics = [(''2022'', \<lparr>revenue = Fin 0, net_income = Fin 400, total_assets = Fin 0,
               total_equity = Fin 0, roe = VInt 0, roa = VInt 0\<rparr>)]\<rparr>
   \<and> both_groups (group_by_year
       [Row ''2022'' ''CFS'' ''BS'' acct_total_equity ''0'',
        Row ''2022'' ''CFS'' ''IS'' acct_net_income ''400'']) ''2022''
   \<and> safe_convert (VStr ''0'') = Inr (Fin 0)
   \<and> profitability_ratios
       [Row ''2022'' ''CFS'' ''BS'' acct_total_equity ''0'',
        Row ''2022'' ''CFS'' ''IS'' acct_net_income ''400'']
       [Row ''2022'' ''CFS'' ''BS'' acct_total_equity ''0'',
        Row ''2022'' ''CFS'' ''IS'' acct_net_income ''400''] = Inr []
   \<and> ROE \<notin> kind ` set ([] :: ratio_record list)"
proof -
  let ?fd = "[Row ''2022'' ''CFS'' ''BS'' acct_total_equity ''0'',
        Row ''2022'' ''CFS'' ''IS'' acct_net_income ''400'']"
  have b: "both_groups (group_by_year ?fd) ''2022''"
    by (simp add: both_groups_def c7_groups)
  have z: "safe_convert (VStr ''0'') = Inr (Fin 0)"
    by (simp add: safe_convert_def parse_eval round_eval)
  have e: "safe_convert (amount_of (account_dict (BS (groups_of (group_by_year ?fd) ''2022'')))
           acct_total_equity) = Inr (Fin 0)"
    unfolding c7_groups by (simp add: account_dict_def amount_of_def acct_defs z)
  from roe_policies_when_summary_produced [OF c7_summary b e]
  have "ROE \<notin> kind ` set ([] :: ratio_record list)"
    by (simp add: c7_groups c7_ratios)
  with c7_summary b z c7_ratios show ?thesis by blast
qed

lemma c7_dash_groups:
  "groups_of (group_by_year
     [Row ''2022'' ''CFS'' ''BS'' acct_total_equity ''-'',
      Row ''2022'' ''CFS'' ''IS'' acct_net_income ''400'']) ''2022''
   = \<lparr>BS = [Row ''2022'' ''CFS'' ''BS'' acct_total_equity ''-'',
             Row ''2022'' ''CFS'' ''IS'' acct_net_income ''400''],
        IS = [Row ''2022'' ''CFS'' ''BS'' acct_total_equity ''-'',
             Row ''2022'' ''CFS'' ''IS'' acct_net_income ''400'']\<rparr>"
  by (simp add: group_by_year_def group_row_def groups_of_def empty_groups_def Let_def)

text \<open>
  C7. Total equity \<open>-\<close> and net income 400 in 2022. Total equity normalizes to 0 and
  the ratio deriver returns the year's groups' list without ROE, but the summary builder
  reads the amount with the builtin \<open>float\<close>, which raises: there is no summary, and so
  no bundle with \<open>roe = 0\<close>.
\<close>

theorem zero_equity_dash_leaves_no_summary:
  "BS (groups_of (group_by_year
       [Row ''2022'' ''CFS'' ''BS'' acct_total_equity ''-'',
        Row ''2022'' ''CFS'' ''IS'' acct_net_income ''400'']) ''2022'')
     = [Row ''2022'' ''CFS'' ''BS'' acct_total_equity ''-'',
        Row ''2022'' ''CFS'' ''IS'' acct_net_income ''400'']
   \<and> IS (groups_of (group_by_year
       [Row ''2022'' ''CFS'' ''BS'' acct_total_equity ''-'',
        Row ''2022'' ''CFS'' ''IS'' acct_net_income ''400'']) ''2022'')
     = [Row ''2022'' ''CFS'' ''BS'' acct_total_equity ''-'',
        Row ''2022'' ''CFS'' ''IS'' acct_net_income ''400'']
   \<and> safe_convert (amount_of (account_dict
       [Row ''2022'' ''CFS'' ''BS'' acct_total_equity ''-'',
        Row ''2022'' ''CFS'' ''IS'' acct_net_income ''400'']) acct_total_equity) = Inr (Fin 0)
   \<and> profitability_ratios
       [Row ''2022'' ''CFS'' ''BS'' acct_total_equity ''-'',
        Row ''2022'' ''CFS'' ''IS'' acct_net_income ''400'']
       [Row ''2022'' ''CFS'' ''BS'' acct_total_equity ''-'',
        Row ''2022'' ''CFS'' ''IS'' acct_net_income ''400''] = Inr []
   \<and> create_analysis_summary
       [Row ''2022'' ''CFS'' ''BS'' acct_total_equity ''-'',
        Row ''2022'' ''CFS'' ''IS'' acct_net_income ''400''] ''2022'' ''2022'' = None"
proof -
  have "safe_convert (amount_of (account_dict
       [Row ''2022'' ''CFS'' ''BS'' acct_total_equity ''-'',
        Row ''2022'' ''CFS'' ''IS'' acct_net_income ''400'']) acct_total_equity) = Inr (Fin 0)"
    by (simp add: ratios_eval acct_defs parse_eval round_eval)
  moreover have "profitability_ratios
       [Row ''2022'' ''CFS'' ''BS'' acct_total_equity ''-'',
        Row ''2022'' ''CFS'' ''IS'' acct_net_income ''400'']
       [Row ''2022'' ''CFS'' ''BS'' acct_total_equity ''-'',
        Row ''2022'' ''CFS'' ''IS'' acct_net_income ''400''] = Inr []"
    by (simp add: ratios_eval acct_defs parse_eval round_eval)
  moreover have "create_analysis_summary
       [Row ''2022'' ''CFS'' ''BS'' acct_total_equity ''-'',
        Row ''2022'' ''CFS'' ''IS'' acct_net_income ''400''] ''2022'' ''2022'' = None"
    by (simp add: summary_eval acct_defs parse_eval round_eval)
  ultimately show ?thesis by (simp add: c7_dash_groups)
qed

lemma py_lt0_not_gt0: "py_lt0 d \<Longrightarrow> \<not> py_gt0 d \<and> d \<noteq> Fin 0"
  by (cases d) auto

lemma c9_revenue_summary:
  "create_analysis_summary
     [Row ''2022'' ''CFS'' ''BS'' acct_total_equity ''100'',
      Row ''2022'' ''CFS'' ''BS'' acct_total_assets ''100'',
      Row ''2022'' ''CFS'' ''IS'' acct_revenue ''-5'',
      Row ''2022'' ''CFS'' ''IS'' acct_net_income ''400''] ''2022'' ''2022''
   = Some \<lparr>period = ''2022'' @ nyeon @ '' ~ '' @ ''2022'' @ nyeon, total_years = 1,
            years = [''2022''],
            key_metrics = [(''2022'', \<lparr>revenue = Fin (- 5), net_income = Fin 400,
               total_assets = Fin 100, total_equity = Fin 100,
               roe = VFloat (Fin 400), roa = VFloat (Fin 400)\<rparr>)]\<rparr>"
  by (simp add: summary_eval acct_defs parse_eval round_eval)

lemma c9_revenue_groups:
  "groups_of (group_by_year
     [Row ''2022'' ''CFS'' ''BS'' acct_total_equity ''100'',
      Row ''2022'' ''CFS'' ''BS'' acct_total_assets ''100'',
      Row ''2022'' ''CFS'' ''IS'' acct_revenue ''-5'',
      Row ''2022'' ''CFS'' ''IS'' acct_net_income ''400'']) ''2022''
   = \<lparr>BS = [Row ''2022'' ''CFS'' ''BS'' acct_total_equity ''100'',
      Row ''2022'' ''CFS'' ''BS'' acct_total_assets ''100'',
      Row ''2022'' ''CFS'' ''IS'' acct_revenue ''-5'',
      Row ''2022'' ''CFS'' ''IS'' acct_net_income ''400''],
        IS = [Row ''2022'' ''CFS'' ''BS'' acct_total_equity ''100'',
      Row ''2022'' ''CFS'' ''BS'' acct_total_assets ''100'',
      Row ''2022'' ''CFS'' ''IS'' acct_revenue ''-5'',
      Row ''2022'' ''CFS'' ''IS'' acct_net_income ''400'']\<rparr>"
  by (simp add: group_by_year_def group_row_def groups_of_def empty_groups_def Let_def)

lemma c9_revenue_ratios:
  "profitability_ratios
     [Row ''2022'' ''CFS'' ''BS'' acct_total_equity ''100'',
      Row ''2022'' ''CFS'' ''BS'' acct_total_assets ''100'',
      Row ''2022'' ''CFS'' ''IS'' acct_revenue ''-5'',
      Row ''2022'' ''CFS'' ''IS'' acct_net_income ''400'']
     [Row ''2022'' ''CFS'' ''BS'' acct_total_equity ''100'',
      Row ''2022'' ''CFS'' ''BS'' acct_total_assets ''100'',
      Row ''2022'' ''CFS'' ''IS'' acct_revenue ''-5'',
      Row ''2022'' ''CFS'' ''IS'' acct_net_income ''400'']
   = Inr [\<lparr>kind = ROE, ratio = Fin 400, numerator_amount = 400, base_amount = 100\<rparr>,
          \<lparr>kind = ROA, ratio = Fin 400, numerator_amount = 400, base_amount = 100\<rparr>]"
  by (simp add: ratios_eval acct_defs parse_eval round_eval)

text \<open>
  C9, counterexample. Revenue is \<open>-5\<close>, total equity and total assets are 100 and net
  income is 400 in 2022. The deriver omits both margins, but the summary reports neither
  of them as 0: the year's bundle has the six entries below, none for a margin and none
  equal to 0.
\<close>

theorem negative_revenue_margin_not_reported_in_summary:
  "safe_convert (denominator_value NetMargin
       (BS (groups_of (group_by_year
         [Row ''2022'' ''CFS'' ''BS'' acct_total_equity ''100'',
          Row ''2022'' ''CFS'' ''BS'' acct_total_assets ''100'',
          Row ''2022'' ''CFS'' ''IS'' acct_revenue ''-5'',
          Row ''2022'' ''CFS'' ''IS'' acct_net_income ''400'']) ''2022''))
       (IS (groups_of (group_by_year
         [Row ''2022'' ''CFS'' ''BS'' acct_total_equity ''100'',
          Row ''2022'' ''CFS'' ''BS'' acct_total_assets ''100'',
          Row ''2022'' ''CFS'' ''IS'' acct_revenue ''-5'',
          Row ''2022'' ''CFS'' ''IS'' acct_net_income ''400'']) ''2022''))) = Inr (Fin (- 5))
   \<and> py_lt0 (Fin (- 5))
   \<and> map_option (map (metric_dict \<circ> snd) \<circ> key_metrics)
       (create_analysis_summary
         [Row ''2022'' ''CFS'' ''BS'' acct_total_equity ''100'',
          Row ''2022'' ''CFS'' ''BS'' acct_total_assets ''100'',
          Row ''2022'' ''CFS'' ''IS'' acct_revenue ''-5'',
          Row ''2022'' ''CFS'' ''IS'' acct_net_income ''400''] ''2022'' ''2022'')
     = Some [[(''revenue'', VFloat (Fin (- 5))), (''net_income'', VFloat (Fin 400)),
              (''total_assets'', VFloat (Fin 100)), (''total_equity'', VFloat (Fin 100)),
              (''roe'', VFloat (Fin 400)), (''roa'', VFloat (Fin 400))]]"
proof -
  have "safe_convert (VStr ''-5'') = Inr (Fin (- 5))"
    by (simp add: safe_convert_def parse_eval round_eval)
  then have "safe_convert (denominator_value NetMargin
       (BS (groups_of (group_by_year
         [Row ''2022'' ''CFS'' ''BS'' acct_total_equity ''100'',
          Row ''2022'' ''CFS'' ''BS'' acct_total_assets ''100'',
          Row ''2022'' ''CFS'' ''IS'' acct_revenue ''-5'',
          Row ''2022'' ''CFS'' ''IS'' acct_net_income ''400'']) ''2022''))
       (IS (groups_of (group_by_year
         [Row ''2022'' ''CFS'' ''BS'' acct_total_equity ''100'',
          Row ''2022'' ''CFS'' ''BS'' acct_total_assets ''100'',
          Row ''2022'' ''CFS'' ''IS'' acct_revenue ''-5'',
          Row ''2022'' ''CFS'' ''IS'' acct_net_income ''400'']) ''2022''))) = Inr (Fin (- 5))"
    unfolding c9_revenue_groups
    by (simp add: denominator_value_def account_dict_def amount_of_def acct_defs)
  then show ?thesis by (simp add: c9_revenue_summary metric_dict_def)
qed

text \<open>
  C9, as the code has it. The guard is \<open>> 0\<close>: a ratio whose denominator normalizes to
  a negative number (so not to zero) is in no list the deriver returns. The summary has
  entries for ROE and ROA only, none for a margin: whenever it is produced, the bundle of
  a year with both groups non-empty has \<open>roe = 0\<close> when total equity normalizes to a
  negative number and \<open>roa = 0\<close> when total assets does.
\<close>

theorem negative_denominator_omitted_roe_roa_zero:
  "(safe_convert (denominator_value k bs_data is_data) = Inr d \<and> py_lt0 d
      \<longrightarrow> d \<noteq> Fin 0
        \<and> (\<forall>rs. profitability_ratios bs_data is_data = Inr rs \<longrightarrow> k \<notin> kind ` set rs))
   \<and> (create_analysis_summary financial_data start_year end_year = Some s
        \<and> both_groups (group_by_year financial_data) y
      \<longrightarrow> (\<exists>m. map_of (key_metrics s) y = Some m
             \<and> map fst (metric_dict m) =
                 [''revenue'', ''net_income'', ''total_assets'', ''total_equity'', ''roe'', ''roa'']
             \<and> (\<forall>e. safe_convert (amount_of (account_dict
                        (BS (groups_of (group_by_year financial_data) y))) acct_total_equity)
                      = Inr e \<and> py_lt0 e \<longrightarrow> roe m = VInt 0)
             \<and> (\<forall>a. safe_convert (amount_of (account_dict
                        (BS (groups_of (group_by_year financial_data) y))) acct_total_assets)
                      = Inr a \<and> py_lt0 a \<longrightarrow> roa m = VInt 0)))"
proof (intro conjI impI)
  assume "safe_convert (denominator_value k bs_data is_data) = Inr d \<and> py_lt0 d"
  then have d: "safe_convert (denominator_value k bs_data is_data) = Inr d" and "py_lt0 d"
    by simp_all
  note n = py_lt0_not_gt0 [OF this(2)]
  from n show "d \<noteq> Fin 0" by simp
  show "\<forall>rs. profitability_ratios bs_data is_data = Inr rs \<longrightarrow> k \<notin> kind ` set rs"
    using ratio_absent_iff_not_positive [OF _ d] n by blast
next
  assume "create_analysis_summary financial_data start_year end_year = Some s
        \<and> both_groups (group_by_year financial_data) y"
  then obtain m where m: "map_of (key_metrics s) y = Some m"
    and ym: "year_metrics (BS (groups_of (group_by_year financial_data) y))
           (IS (groups_of (group_by_year financial_data) y)) = Inr m"
    by (auto elim: key_metrics_lookup)
  note z = summary_zero_when_not_positive [OF ym]
  have "\<forall>e. safe_convert (amount_of (account_dict
                        (BS (groups_of (group_by_year financial_data) y))) acct_total_equity)
                      = Inr e \<and> py_lt0 e \<longrightarrow> roe m = VInt 0"
    using z(1,3) py_lt0_not_gt0 by auto
  moreover have "\<forall>a. safe_convert (amount_of (account_dict
                        (BS (groups_of (group_by_year financial_data) y))) acct_total_assets)
                      = Inr a \<and> py_lt0 a \<longrightarrow> roa m = VInt 0"
    using z(2,4) py_lt0_not_gt0 by auto
  ultimately show "\<exists>m. map_of (key_metrics s) y = Some m
             \<and> map fst (metric_dict m) =
                 [''revenue'', ''net_income'', ''total_assets'', ''total_equity'', ''roe'', ''roa'']
             \<and> (\<forall>e. safe_convert (amount_of (account_dict
                        (BS (groups_of (group_by_year financial_data) y))) acct_total_equity)
                      = Inr e \<and> py_lt0 e \<longrightarrow> roe m = VInt 0)
             \<and> (\<forall>a. safe_convert (amount_of (account_dict
                        (BS (groups_of (group_by_year financial_data) y))) acct_total_assets)
                      = Inr a \<and> py_lt0 a \<longrightarrow> roa m = VInt 0)"
    using m by (simp add: metric_dict_def)
qed

lemma c9_summary:
  "create_analysis_summary
     [Row ''2022'' ''CFS'' ''BS'' acct_total_equity ''-5'',
      Row ''2022'' ''CFS'' ''BS'' acct_total_assets ''-5'',
      Row ''2022'' ''CFS'' ''IS'' acct_revenue ''-5'',
      Row ''2022'' ''CFS'' ''IS'' acct_net_income ''400''] ''2022'' ''2022''
   = Some \<lparr>period = ''2022'' @ nyeon @ '' ~ '' @ ''2022'' @ nyeon, total_years = 1,
            years = [''2022''],
            key_metrics = [(''2022'', \<lparr>revenue = Fin (- 5), net_income = Fin 400,
               total_assets = Fin (- 5), total_equity = Fin (- 5),
               roe = VInt 0, roa = VInt 0\<rparr>)]\<rparr>"
  by (simp add: summary_eval acct_defs parse_eval round_eval)

lemma c9_groups:
  "groups_of (group_by_year
     [Row ''2022'' ''CFS'' ''BS'' acct_total_equity ''-5'',
      Row ''2022'' ''CFS'' ''BS'' acct_total_assets ''-5'',
      Row ''2022'' ''CFS'' ''IS'' acct_revenue ''-5'',
      Row ''2022'' ''CFS'' ''IS'' acct_net_income ''400'']) ''2022''
   = \<lparr>BS = [Row ''2022'' ''CFS'' ''BS'' acct_total_equity ''-5'',
      Row ''2022'' ''CFS'' ''BS'' acct_total_assets ''-5'',
      Row ''2022'' ''CFS'' ''IS'' acct_revenue ''-5'',
      Row ''2022'' ''CFS'' ''IS'' acct_net_income ''400''],
        IS = [Row ''2022'' ''CFS'' ''BS'' acct_total_equity ''-5'',
      Row ''2022'' ''CFS'' ''BS'' acct_total_assets ''-5'',
      Row ''2022'' ''CFS'' ''IS'' acct_revenue ''-5'',
      Row ''2022'' ''CFS'' ''IS'' acct_net_income ''400'']\<rparr>"
  by (simp add: group_by_year_def group_row_def groups_of_def empty_groups_def Let_def)

lemma c9_ratios:
  "profitability_ratios
     [Row ''2022'' ''CFS'' ''BS'' acct_total_equity ''-5'',
      Row ''2022'' ''CFS'' ''BS'' acct_total_assets ''-5'',
      Row ''2022'' ''CFS'' ''IS'' acct_revenue ''-5'',
      Row ''2022'' ''CFS'' ''IS'' acct_net_income ''400'']
     [Row ''2022'' ''CFS'' ''BS'' acct_total_equity ''-5'',
      Row ''2022'' ''CFS'' ''BS'' acct_total_assets ''-5'',
      Row ''2022'' ''CFS'' ''IS'' acct_revenue ''-5'',
      Row ''2022'' ''CFS'' ''IS'' acct_net_income ''400''] = Inr []"
  by (simp add: ratios_eval acct_defs parse_eval round_eval)

text \<open>
  C9, witness: total equity, total assets and revenue are \<open>-5\<close>. The deriver returns
  the empty list, and the summary is produced with \<open>roe = 0\<close> and \<open>roa = 0\<close>.
\<close>

theorem negative_denominator_omitted_roe_roa_zero_witness:
  "safe_convert (VStr ''-5'') = Inr (Fin (- 5)) \<and> py_lt0 (Fin (- 5))
   \<and> Fin (- 5) \<noteq> Fin 0
   \<and> profitability_ratios
       [Row ''2022'' ''CFS'' ''BS'' acct_total_equity ''-5'',
        Row ''2022'' ''CFS'' ''BS'' acct_total_assets ''-5'',
        Row ''2022'' ''CFS'' ''IS'' acct_revenue ''-5'',
        Row ''2022'' ''CFS'' ''IS'' acct_net_income ''400'']
       [Row ''2022'' ''CFS'' ''BS'' acct_total_equity ''-5'',
        Row ''2022'' ''CFS'' ''BS'' acct_total_assets ''-5'',
        Row ''2022'' ''CFS'' ''IS'' acct_revenue ''-5'',
        Row ''2022'' ''CFS'' ''IS'' acct_net_income ''400''] = Inr []
   \<and> ROE \<notin> kind ` set ([] :: ratio_record list)
   \<and> ROA \<notin> kind ` set ([] :: ratio_record list)
   \<and> OperatingMargin \<notin> kind ` set ([] :: ratio_record list)
   \<and> NetMargin \<notin> kind ` set ([] :: ratio_record list)
   \<and> create_analysis_summary
     [Row ''2022'' ''CFS'' ''BS'' acct_total_equity ''-5'',
      Row ''2022'' ''CFS'' ''BS'' acct_total_assets ''-5'',
      Row ''2022'' ''CFS'' ''IS'' acct_revenue ''-5'',
      Row ''2022'' ''CFS'' ''IS'' acct_net_income ''400''] ''2022'' ''2022''
     = Some \<lparr>period = ''2022'' @ nyeon @ '' ~ '' @ ''2022'' @ nyeon, total_years = 1,
            years = [''2022''],
            key_metrics = [(''2022'', \<lparr>revenue = Fin (- 5), net_income = Fin 400,
               total_assets = Fin (- 5), total_equity = Fin (- 5),
               roe = VInt 0, roa = VInt 0\<rparr>)]\<rparr>
   \<and> both_groups (group_by_year
       [Row ''2022'' ''CFS'' ''BS'' acct_total_equity ''-5'',
        Row ''2022'' ''CFS'' ''BS'' acct_total_assets ''-5'',
        Row ''2022'' ''CFS'' ''IS'' acct_revenue ''-5'',
        Row ''2022'' ''CFS'' ''IS'' acct_net_income ''400'']) ''2022''
   \<and> roe \<lparr>revenue = Fin (- 5), net_income = Fin 400,
               total_assets = Fin (- 5), total_equity = Fin (- 5),
               roe = VInt 0, roa = VInt 0\<rparr> = VInt 0
   \<and> roa \<lparr>revenue = Fin (- 5), net_income = Fin 400,
               total_assets = Fin (- 5), total_equity = Fin (- 5),
               roe = VInt 0, roa = VInt 0\<rparr> = VInt 0"
proof -
  let ?fd = "[Row ''2022'' ''CFS'' ''BS'' acct_total_equity ''-5'',
        Row ''2022'' ''CFS'' ''BS'' acct_total_assets ''-5'',
        Row ''2022'' ''CFS'' ''IS'' acct_revenue ''-5'',
        Row ''2022'' ''CFS'' ''IS'' acct_net_income ''400'']"
  have b: "both_groups (group_by_year ?fd) ''2022''"
    by (simp add: both_groups_def c9_groups)
  have z: "safe_convert (VStr ''-5'') = Inr (Fin (- 5))"
    by (simp add: safe_convert_def parse_eval round_eval)
  have l: "py_lt0 (Fin (- 5))" by simp
  have e: "safe_convert (denominator_value k ?fd ?fd) = Inr (Fin (- 5))" for k
    by (cases k) (simp_all add: denominator_value_def account_dict_def amount_of_def acct_defs z)
  have a: "safe_convert (amount_of (account_dict (BS (groups_of (group_by_year ?fd) ''2022'')))
             acct_total_equity) = Inr (Fin (- 5))"
    "safe_convert (amount_of (account_dict (BS (groups_of (group_by_year ?fd) ''2022'')))
             acct_total_assets) = Inr (Fin (- 5))"
    unfolding c9_groups
    by (simp_all add: account_dict_def amount_of_def acct_defs z)
  note t = negative_denominator_omitted_roe_roa_zero
    [of _ ?fd ?fd "Fin (- 5)" ?fd "''2022''" "''2022''" _ "''2022''"]
  from t [of ROE, THEN conjunct1] t [of ROA, THEN conjunct1]
    t [of OperatingMargin, THEN conjunct1] t [of NetMargin, THEN conjunct1] e l c9_ratios
  have r: "Fin (- 5) \<noteq> Fin 0
   \<and> ROE \<notin> kind ` set ([] :: ratio_record list)
   \<and> ROA \<notin> kind ` set ([] :: ratio_record list)
   \<and> OperatingMargin \<notin> kind ` set ([] :: ratio_record list)
   \<and> NetMargin \<notin> kind ` set ([] :: ratio_record list)"
    by simp
  from t [of ROE, THEN conjunct2, rule_format, OF conjI, OF c9_summary b] a l
  have "roe \<lparr>revenue = Fin (- 5), net_income = Fin 400,
               total_assets = Fin (- 5), total_equity = Fin (- 5),
               roe = VInt 0, roa = VInt 0\<rparr> = VInt 0
   \<and> roa \<lparr>revenue = Fin (- 5), net_income = Fin 400,
               total_assets = Fin (- 5), total_equity = Fin (- 5),
               roe = VInt 0, roa = VInt 0\<rparr> = VInt 0"
    by auto
  with r c9_summary b z l c9_ratios show ?thesis by blast
qed

lemma c8_eval:
  "create_analysis_summary
     [Row ''99'' ''CFS'' ''BS'' acct_total_equity ''0'',
      Row ''2020'' ''CFS'' ''BS'' acct_total_equity ''0''] ''99'' ''2020''
   = Some \<lparr>period = ''99'' @ nyeon @ '' ~ '' @ ''2020'' @ nyeon, total_years = 2,
            years = [''2020'', ''99''],
            key_metrics =
              [(''2020'', \<lparr>revenue = Fin 0, net_income = Fin 0, total_assets = Fin 0,
                  total_equity = Fin 0, roe = VInt 0, roa = VInt 0\<rparr>),
               (''99'', \<lparr>revenue = Fin 0, net_income = Fin 0, total_assets = Fin 0,
                  total_equity = Fin 0, roe = VInt 0, roa = VInt 0\<rparr>)]\<rparr>"
  by (simp add: summary_eval acct_defs parse_eval round_eval)

text \<open>
  C8, counterexample. The years \<open>99\<close> and \<open>2020\<close>: \<open>sorted\<close> compares
  strings, so the summary lists \<open>2020\<close> before \<open>99\<close>, against the order of the
  numbers.
\<close>

theorem summary_years_not_in_integer_order:
  "map_option years (create_analysis_summary
     [Row ''99'' ''CFS'' ''BS'' acct_total_equity ''0'',
      Row ''2020'' ''CFS'' ''BS'' acct_total_equity ''0''] ''99'' ''2020'')
     = Some [''2020'', ''99'']
   \<and> map year_number [''2020'', ''99''] = [2020, 99]
   \<and> \<not> sorted (map year_number [''2020'', ''99''])"
  by (simp add: c8_eval year_number_def nat_of_digits_def digit_val_def)

text \<open>
  C8, as the code has it. The years of a produced summary are the distinct years of the
  rows in ascending string order, and the bundles follow in that order. When all the year
  strings are digit strings of one length, that is the ascending order of the numbers.
\<close>

theorem summary_years_in_string_order:
  assumes "create_analysis_summary financial_data start_year end_year = Some s"
  shows "sorted (years s) \<and> distinct (years s)
       \<and> set (years s) = bsns_year ` set financial_data
       \<and> map fst (key_metrics s) = filter (both_groups (group_by_year financial_data)) (years s)
       \<and> ((\<forall>y \<in> set (years s). length y = n \<and> list_all is_digit y)
            \<longrightarrow> sorted (map year_number (years s)))"
  using years_set(1,2,3) [OF assms] key_metrics_order [OF assms]
    sorted_year_numbers [of "years s" n] by blast

lemma c8_witness_eval:
  "create_analysis_summary
     [Row ''2019'' ''CFS'' ''BS'' acct_total_equity ''0'',
      Row ''2021'' ''CFS'' ''BS'' acct_total_equity ''0'',
      Row ''2020'' ''IS'' ''IS'' acct_net_income ''0''] ''2019'' ''2021''
   = Some \<lparr>period = ''2019'' @ nyeon @ '' ~ '' @ ''2021'' @ nyeon, total_years = 3,
            years = [''2019'', ''2020'', ''2021''],
            key_metrics =
              [(''2019'', \<lparr>revenue = Fin 0, net_income = Fin 0, total_assets = Fin 0,
                  total_equity = Fin 0, roe = VInt 0, roa = VInt 0\<rparr>),
               (''2021'', \<lparr>revenue = Fin 0, net_income = Fin 0, total_assets = Fin 0,
                  total_equity = Fin 0, roe = VInt 0, roa = VInt 0\<rparr>)]\<rparr>"
  by (simp add: summary_eval acct_defs parse_eval round_eval)

text \<open>
  C8, witness: the years 2019, 2021, 2020 are listed as 2019, 2020, 2021; 2020 has no
  BalanceSheet row and no bundle.
\<close>

theorem summary_years_in_string_order_witness:
  "create_analysis_summary
     [Row ''2019'' ''CFS'' ''BS'' acct_total_equity ''0'',
      Row ''2021'' ''CFS'' ''BS'' acct_total_equity ''0'',
      Row ''2020'' ''IS'' ''IS'' acct_net_income ''0''] ''2019'' ''2021''
   = Some \<lparr>period = ''2019'' @ nyeon @ '' ~ '' @ ''2021'' @ nyeon, total_years = 3,
            years = [''2019'', ''2020'', ''2021''],
            key_metrics =
              [(''2019'', \<lparr>revenue = Fin 0, net_income = Fin 0, total_assets = Fin 0,
                  total_equity = Fin 0, roe = VInt 0, roa = VInt 0\<rparr>),
               (''2021'', \<lparr>revenue = Fin 0, net_income = Fin 0, total_assets = Fin 0,
                  total_equity = Fin 0, roe = VInt 0, roa = VInt 0\<rparr>)]\<rparr>
   \<and> map length [''2019'', ''2020'', ''2021''] = [4, 4, 4]
   \<and> list_all (list_all is_digit) [''2019'', ''2020'', ''2021'']
   \<and> sorted (map year_number [''2019'', ''2020'', ''2021''])
   \<and> [''2019'', ''2021''] =
       filter (both_groups (group_by_year
         [Row ''2019'' ''CFS'' ''BS'' acct_total_equity ''0'',
          Row ''2021'' ''CFS'' ''BS'' acct_total_equity ''0'',
          Row ''2020'' ''IS'' ''IS'' acct_net_income ''0''])) [''2019'', ''2020'', ''2021'']"
proof -
  have d: "\<forall>y \<in> set [''2019'', ''2020'', ''2021'']. length y = 4 \<and> list_all is_digit y"
    by (simp add: is_digit_def)
  have l: "map length [''2019'', ''2020'', ''2021''] = [4, 4, 4]"
    "list_all (list_all is_digit) [''2019'', ''2020'', ''2021'']"
    by (simp_all add: is_digit_def)
  from summary_years_in_string_order [OF c8_witness_eval, of 4] d c8_witness_eval l
  show ?thesis by simp
qed

end
